theory Spec2Isabelle
  imports Main "HOL-Library.Word"
begin

section \<open>HomeSense Basic firmware: the sketch as a state transformer\<close>

text \<open>
  The sketch \<^verbatim>\<open>HomeSenseBasicFirmware.ino\<close> is a single control loop around four
  collaborators that are not part of it: the WiFi stack, the MQTT client
  (\<^verbatim>\<open>PubSubClient\<close>), the DHT12 driver and the BaroSensor driver.  Every call into a
  collaborator is recorded as an event of a trace, together with the answer the
  collaborator gave; the answers themselves are inputs of the model.  The globals of the
  sketch are the fields of a state record.

  \<^verbatim>\<open>unsigned long\<close> is 32 bits wide on the ESP8266 and is modelled as \<open>32 word\<close>.
  The C type \<^verbatim>\<open>float\<close> is kept abstract (the type variable \<open>'f\<close>): its addition, its
  literals and the two library routines that render it as text are parameters.
\<close>

type_synonym u32 = "32 word"

type_synonym byte = "8 word"

subsection \<open>Observable calls\<close>

datatype 'f event =
    SerialBegin nat
  | SerialPrint string
  | SerialPrintln string
  | Delay nat
  | WiFiBegin string string
  | WiFiStatus nat
  | WiFiLocalIP string
  | SetServer string nat
  | SetCallback
  | BaroBegin
  | ClientConnected bool
  | ClientConnect string bool
  | ClientState int
  | ClientPublish string string
  | ClientSubscribe string
  | ClientLoop
  | Millis u32
  | DhtGet byte
  | BaroIsOK bool
  | BaroGetError int
  | BaroGetPressure 'f
  | BaroGetTemperature 'f

subsection \<open>Platform, constants and globals\<close>

text \<open>
  What the hardware and the C library provide: the chip identifier returned by
  \<^verbatim>\<open>ESP.getChipId()\<close>, single-precision addition, the value of a literal \<^verbatim>\<open>n.0\<close>,
  \<^verbatim>\<open>dtostrf(value, width, precision, buffer)\<close> and the text that
  \<^verbatim>\<open>Serial.print(float)\<close> writes.
\<close>

record 'f platform =
  getChipId :: u32
  fadd :: "'f \<Rightarrow> 'f \<Rightarrow> 'f"
  float_lit :: "int \<Rightarrow> 'f"
  dtostrf :: "'f \<Rightarrow> int \<Rightarrow> nat \<Rightarrow> string"
  print_float :: "'f \<Rightarrow> string"

text \<open>The four \<^verbatim>\<open>const float\<close> calibration adjustments.\<close>

record 'f calibration =
  humidity_adjustment :: 'f
  temperature_adjustment :: 'f
  pressure_adjustment :: 'f
  temperature_2_adjustment :: 'f

definition sketch_calibration :: "'f platform \<Rightarrow> 'f calibration" where
  "sketch_calibration P =
     \<lparr> humidity_adjustment = float_lit P 0,
       temperature_adjustment = float_lit P (- 3),
       pressure_adjustment = float_lit P 0,
       temperature_2_adjustment = float_lit P (- 3) \<rparr>"

text \<open>\<^verbatim>\<open>int reporting_interval = 5;\<close> is never assigned after its initialisation.\<close>

definition reporting_interval :: int where
  "reporting_interval = 5"

definition ssid :: string where
  "ssid = ''''"

definition password :: string where
  "password = ''''"

definition mqtt_broker :: string where
  "mqtt_broker = ''192.168.1.111''"

text \<open>The value of the enumerator \<^verbatim>\<open>WL_CONNECTED\<close> in the ESP8266 core.\<close>

definition WL_CONNECTED :: nat where
  "WL_CONNECTED = 3"

text \<open>The mutable globals, and the trace of calls made so far.\<close>

record 'f state =
  next_report_time :: u32
  lastMsg :: int
  msg :: string
  device_id :: string
  humidity_topic :: string
  temperature_topic :: string
  pressure_topic :: string
  temperature_2_topic :: string
  command_topic :: string
  trace :: "'f event list"

definition initial_state :: "'f state" where
  "initial_state =
     \<lparr> next_report_time = 0, lastMsg = 0, msg = '''', device_id = ''default'',
       humidity_topic = '''', temperature_topic = '''', pressure_topic = '''',
       temperature_2_topic = '''', command_topic = '''', trace = [] \<rparr>"

definition emit :: "'f event \<Rightarrow> 'f state \<Rightarrow> 'f state" where
  "emit e s = s\<lparr>trace := trace s @ [e]\<rparr>"

subsection \<open>Number rendering: \<^verbatim>\<open>%x\<close>, \<^verbatim>\<open>String(n, HEX)\<close> and \<^verbatim>\<open>Serial.print(int)\<close>\<close>

definition digit_char :: "nat \<Rightarrow> char" where
  "digit_char d = ''0123456789abcdef'' ! d"

function radix_digits :: "nat \<Rightarrow> nat \<Rightarrow> string" where
  "radix_digits b n =
     (if b < 2 \<or> n < b then [digit_char n]
      else radix_digits b (n div b) @ [digit_char (n mod b)])"
  by pat_completeness auto
termination
  by (relation "measure snd") auto

definition hex :: "u32 \<Rightarrow> string" where
  "hex w = radix_digits 16 (unat w)"

definition print_int :: "int \<Rightarrow> string" where
  "print_int i = (if i < 0 then CHR ''-'' # radix_digits 10 (nat (- i)) else radix_digits 10 (nat i))"

subsection \<open>\<^verbatim>\<open>setup_wifi()\<close> and \<^verbatim>\<open>setup()\<close>\<close>

record wifi_inputs =
  wifi_status :: "nat \<Rightarrow> nat"
  wifi_localIP :: string

text \<open>
  The wait \<^verbatim>\<open>while (WiFi.status() != WL_CONNECTED)\<close>; \<open>i\<close> counts the polls made.
  The wait has no bound, so a network that never associates gives \<open>None\<close>.
\<close>

partial_function (option) wifi_wait :: "wifi_inputs \<Rightarrow> nat \<Rightarrow> 'f state \<Rightarrow> 'f state option" where
  "wifi_wait w i s =
     (if wifi_status w i \<noteq> WL_CONNECTED
      then wifi_wait w (Suc i)
             (emit (SerialPrint ''.'') (emit (Delay 500) (emit (WiFiStatus (wifi_status w i)) s)))
      else Some (emit (WiFiStatus (wifi_status w i)) s))"

declare wifi_wait.simps [code]

definition setup_wifi :: "wifi_inputs \<Rightarrow> 'f state \<Rightarrow> 'f state option" where
  "setup_wifi w s0 =
     (let s1 = emit (Delay 10) s0;
          s2 = emit (SerialPrintln '''') s1;
          s3 = emit (SerialPrint ''Connecting to SSID '') s2;
          s4 = emit (SerialPrintln ssid) s3;
          s5 = emit (WiFiBegin ssid password) s4
      in case wifi_wait w 0 s5 of
           None \<Rightarrow> None
         | Some s6 \<Rightarrow>
             (let s7 = emit (SerialPrintln '''') s6;
                  s8 = emit (SerialPrintln ''WiFi connected'') s7;
                  s9 = emit (SerialPrint ''IP address: '') s8;
                  s10 = emit (WiFiLocalIP (wifi_localIP w)) s9
              in Some (emit (SerialPrintln (wifi_localIP w)) s10)))"

text \<open>\<^verbatim>\<open>setup()\<close>; the name \<open>setup\<close> is reserved in Isabelle.\<close>

definition sketch_setup :: "'f platform \<Rightarrow> wifi_inputs \<Rightarrow> 'f state \<Rightarrow> 'f state option" where
  "sketch_setup P w s0 =
     (let s1 = emit (SerialBegin 115200) s0;
          s2 = emit (SerialPrintln '''') s1;
          s3 = emit (SerialPrintln ''==================================='') s2;
          s4 = emit (SerialPrintln ''Starting up HomeSense Basic v1.0'') s3;
          s5 = s4\<lparr>device_id := hex (getChipId P)\<rparr>;
          s6 = emit (SerialPrint ''Device ID: '') s5;
          s7 = emit (SerialPrintln (device_id s6)) s6;
          s8 = s7\<lparr>humidity_topic := ''device/'' @ hex (getChipId P) @ ''/humidity''\<rparr>;
          s9 = s8\<lparr>temperature_topic := ''device/'' @ hex (getChipId P) @ ''/temperature''\<rparr>;
          s10 = s9\<lparr>pressure_topic := ''device/'' @ hex (getChipId P) @ ''/pressure''\<rparr>;
          s11 = s10\<lparr>temperature_2_topic := ''device/'' @ hex (getChipId P) @ ''/temperature2''\<rparr>;
          s12 = s11\<lparr>command_topic := ''device/'' @ hex (getChipId P) @ ''/command''\<rparr>;
          s13 = emit (SerialPrint ''Humidity topic:      '') s12;
          s14 = emit (SerialPrintln (humidity_topic s13)) s13;
          s15 = emit (SerialPrint ''Temperature topic:   '') s14;
          s16 = emit (SerialPrintln (temperature_topic s15)) s15;
          s17 = emit (SerialPrint ''Pressure topic:      '') s16;
          s18 = emit (SerialPrintln (pressure_topic s17)) s17;
          s19 = emit (SerialPrint ''Temperature 2 topic: '') s18;
          s20 = emit (SerialPrintln (temperature_2_topic s19)) s19;
          s21 = emit (SerialPrint ''Command topic:       '') s20;
          s22 = emit (SerialPrintln (command_topic s21)) s21
      in case setup_wifi w s22 of
           None \<Rightarrow> None
         | Some s23 \<Rightarrow>
             (let s24 = emit (SetServer mqtt_broker 1883) s23;
                  s25 = emit SetCallback s24
              in Some (emit BaroBegin s25)))"

subsection \<open>\<^verbatim>\<open>callback()\<close>\<close>

definition callback :: "string \<Rightarrow> string \<Rightarrow> 'f state \<Rightarrow> 'f state" where
  "callback topic payload s0 =
     (let s1 = emit (SerialPrint ''Message arrived ['') s0;
          s2 = emit (SerialPrint topic) s1;
          s3 = emit (SerialPrint ''] '') s2;
          s4 = fold (\<lambda>c. emit (SerialPrint [c])) payload s3
      in emit (SerialPrintln '''') s4)"

subsection \<open>What the collaborators answer during one pass of \<^verbatim>\<open>loop()\<close>\<close>

text \<open>
  \<open>connected_top\<close> is the answer of \<^verbatim>\<open>client.connected()\<close> in \<^verbatim>\<open>loop()\<close>;
  \<open>connected_poll i\<close> is its answer at the \<open>i\<close>-th test of the \<^verbatim>\<open>while\<close> in
  \<^verbatim>\<open>reconnect()\<close>, \<open>connect_result i\<close> the answer of the \<open>i\<close>-th
  \<^verbatim>\<open>client.connect\<close> and \<open>client_state i\<close> that of \<^verbatim>\<open>client.state()\<close> after it.
  \<open>inbound\<close> lists the messages that \<^verbatim>\<open>client.loop()\<close> hands to the callback.
  \<open>dht_cTemp\<close> and \<open>dht_humidity\<close> are the fields of the DHT12 object after
  \<^verbatim>\<open>get()\<close>.
\<close>

record 'f inputs =
  connected_top :: bool
  connected_poll :: "nat \<Rightarrow> bool"
  connect_result :: "nat \<Rightarrow> bool"
  client_state :: "nat \<Rightarrow> int"
  inbound :: "(string \<times> string) list"
  millis :: u32
  dht_get :: byte
  dht_cTemp :: 'f
  dht_humidity :: 'f
  baro_isOK :: bool
  baro_getError :: int
  baro_getPressure :: 'f
  baro_getTemperature :: 'f

subsection \<open>\<^verbatim>\<open>reconnect()\<close>\<close>

definition mqtt_client_id :: "'f platform \<Rightarrow> string" where
  "mqtt_client_id P = ''esp8266-'' @ hex (getChipId P)"

text \<open>The body of the \<^verbatim>\<open>while\<close> loop, at its \<open>i\<close>-th round.\<close>

definition reconnect_attempt :: "'f platform \<Rightarrow> 'f inputs \<Rightarrow> nat \<Rightarrow> 'f state \<Rightarrow> 'f state" where
  "reconnect_attempt P inp i s0 =
     (let s1 = emit (SerialPrint ''Attempting MQTT connection...'') s0;
          s2 = emit (ClientConnect (mqtt_client_id P) (connect_result inp i)) s1
      in if connect_result inp i then
           (let s3 = emit (SerialPrintln ''connected'') s2;
                s4 = s3\<lparr>msg := ''Device '' @ mqtt_client_id P @ '' starting up''\<rparr>;
                s5 = emit (ClientPublish ''events'' (msg s4)) s4
            in emit (ClientSubscribe (command_topic s5)) s5)
         else
           (let s3 = emit (SerialPrint ''failed, rc='') s2;
                s4 = emit (ClientState (client_state inp i)) s3;
                s5 = emit (SerialPrint (print_int (client_state inp i))) s4;
                s6 = emit (SerialPrintln '' try again in 5 seconds'') s5
            in emit (Delay 5000) s6))"

text \<open>
  \<^verbatim>\<open>while (!client.connected()) { ... }\<close>: there is no retry limit, so a broker that
  never reports a connection gives \<open>None\<close>.
\<close>

partial_function (option) reconnect_while ::
  "'f platform \<Rightarrow> 'f inputs \<Rightarrow> nat \<Rightarrow> 'f state \<Rightarrow> 'f state option" where
  "reconnect_while P inp i s =
     (if \<not> connected_poll inp i
      then reconnect_while P inp (Suc i)
             (reconnect_attempt P inp i (emit (ClientConnected (connected_poll inp i)) s))
      else Some (emit (ClientConnected (connected_poll inp i)) s))"

declare reconnect_while.simps [code]

definition reconnect :: "'f platform \<Rightarrow> 'f inputs \<Rightarrow> 'f state \<Rightarrow> 'f state option" where
  "reconnect P inp s = reconnect_while P inp 0 s"

subsection \<open>\<^verbatim>\<open>loop()\<close>\<close>

text \<open>The block guarded by \<^verbatim>\<open>if (dht12.get() == 0)\<close>.\<close>

definition report_dht :: "'f platform \<Rightarrow> 'f calibration \<Rightarrow> 'f inputs \<Rightarrow> 'f state \<Rightarrow> 'f state" where
  "report_dht P C inp s0 =
     (let s1 = emit (DhtGet (dht_get inp)) s0
      in if dht_get inp = 0 then
           (let s2 = emit (SerialPrint ''Temperature:  '') s1;
                temperature_value = fadd P (dht_cTemp inp) (temperature_adjustment C);
                s3 = emit (SerialPrintln (print_float P temperature_value)) s2;
                s4 = s3\<lparr>msg := dtostrf P temperature_value 4 2\<rparr>;
                s5 = emit (ClientPublish (temperature_topic s4) (msg s4)) s4;
                s6 = emit (SerialPrint ''Humidity:     '') s5;
                humidity_value = fadd P (dht_humidity inp) (humidity_adjustment C);
                s7 = emit (SerialPrintln (print_float P humidity_value)) s6;
                s8 = s7\<lparr>msg := dtostrf P humidity_value 4 2\<rparr>
            in emit (ClientPublish (humidity_topic s8) (msg s8)) s8)
         else s1)"

text \<open>The \<^verbatim>\<open>if (!BaroSensor.isOK()) ... else ...\<close> statement.\<close>

definition report_baro :: "'f platform \<Rightarrow> 'f calibration \<Rightarrow> 'f inputs \<Rightarrow> 'f state \<Rightarrow> 'f state" where
  "report_baro P C inp s0 =
     (let s1 = emit (BaroIsOK (baro_isOK inp)) s0
      in if \<not> baro_isOK inp then
           (let s2 = emit (SerialPrint ''Baro sensor not Found/OK. Error: '') s1;
                s3 = emit (BaroGetError (baro_getError inp)) s2;
                s4 = emit (SerialPrintln (print_int (baro_getError inp))) s3
            in emit BaroBegin s4)
         else
           (let s2 = emit (SerialPrint ''Pressure:     '') s1;
                s3 = emit (BaroGetPressure (baro_getPressure inp)) s2;
                pressure_value = fadd P (baro_getPressure inp) (pressure_adjustment C);
                s4 = emit (SerialPrintln (print_float P pressure_value)) s3;
                s5 = s4\<lparr>msg := dtostrf P pressure_value 6 2\<rparr>;
                s6 = emit (ClientPublish (pressure_topic s5) (msg s5)) s5;
                s7 = emit (SerialPrint ''Temperature2: '') s6;
                s8 = emit (BaroGetTemperature (baro_getTemperature inp)) s7;
                temperature_2_value = fadd P (baro_getTemperature inp) (temperature_2_adjustment C);
                s9 = emit (SerialPrintln (print_float P temperature_2_value)) s8;
                s10 = s9\<lparr>msg := dtostrf P temperature_2_value 4 2\<rparr>
            in emit (ClientPublish (temperature_2_topic s10) (msg s10)) s10))"

text \<open>\<^verbatim>\<open>client.loop()\<close>, which runs the callback on every message that has arrived.\<close>

definition client_loop :: "'f inputs \<Rightarrow> 'f state \<Rightarrow> 'f state" where
  "client_loop inp s = fold (\<lambda>(t, p). callback t p) (inbound inp) (emit ClientLoop s)"

text \<open>
  \<^verbatim>\<open>loop()\<close> from \<^verbatim>\<open>millis()\<close> on.  The product
  \<^verbatim>\<open>reporting_interval * 1000\<close> is an \<^verbatim>\<open>int\<close> that is converted to
  \<^verbatim>\<open>unsigned long\<close> for the addition, which wraps modulo \<open>2 ^ 32\<close>.
\<close>

definition loop_report :: "'f platform \<Rightarrow> 'f calibration \<Rightarrow> 'f inputs \<Rightarrow> 'f state \<Rightarrow> 'f state" where
  "loop_report P C inp s0 =
     (let time_now = millis inp;
          s1 = emit (Millis time_now) s0
      in if time_now \<ge> next_report_time s1 then
           (let s2 = s1\<lparr>next_report_time := time_now + word_of_int (reporting_interval * 1000)\<rparr>;
                s3 = report_dht P C inp s2
            in report_baro P C inp s3)
         else s1)"

definition loop :: "'f platform \<Rightarrow> 'f calibration \<Rightarrow> 'f inputs \<Rightarrow> 'f state \<Rightarrow> 'f state option" where
  "loop P C inp s0 =
     (let s1 = emit (ClientConnected (connected_top inp)) s0
      in case (if \<not> connected_top inp then reconnect P inp s1 else Some s1) of
           None \<Rightarrow> None
         | Some s2 \<Rightarrow>
             (let s3 = client_loop inp s2
              in Some (loop_report P C inp s3)))"

text \<open>
  The Arduino core calls \<^verbatim>\<open>setup()\<close> once and then \<^verbatim>\<open>loop()\<close> again and again;
  \<open>run\<close> is a finite number of passes, one element of the list for each.
\<close>

fun run :: "'f platform \<Rightarrow> 'f calibration \<Rightarrow> 'f inputs list \<Rightarrow> 'f state \<Rightarrow> 'f state option" where
  "run P C [] s = Some s"
| "run P C (inp # inps) s =
     (case loop P C inp s of None \<Rightarrow> None | Some s' \<Rightarrow> run P C inps s')"

section \<open>Notions for stating what a pass does\<close>

text \<open>
  The events that keep the broker link alive and the diagnostics: no reading of the clock,
  no call into a sensor driver, and no publication other than to the fixed topic
  \<open>events\<close>.
\<close>

fun link_event :: "'f event \<Rightarrow> bool" where
  "link_event (SerialPrint _) = True"
| "link_event (SerialPrintln _) = True"
| "link_event (Delay _) = True"
| "link_event (ClientConnected _) = True"
| "link_event (ClientConnect _ _) = True"
| "link_event (ClientState _) = True"
| "link_event (ClientPublish t _) = (t = ''events'')"
| "link_event (ClientSubscribe _) = True"
| "link_event ClientLoop = True"
| "link_event _ = False"

text \<open>Appending several events at once; used to state what a block adds to the trace.\<close>

definition append_trace :: "'f event list \<Rightarrow> 'f state \<Rightarrow> 'f state" where
  "append_trace evs s = s\<lparr>trace := trace s @ evs\<rparr>"

text \<open>
  What one round of the \<^verbatim>\<open>while\<close> in \<^verbatim>\<open>reconnect()\<close> adds to the trace: the
  poll that found the client disconnected, then the attempt and what follows it.
\<close>

definition attempt_events :: "'f platform \<Rightarrow> 'f inputs \<Rightarrow> string \<Rightarrow> nat \<Rightarrow> 'f event list" where
  "attempt_events P inp cmd i =
     [ClientConnected False, SerialPrint ''Attempting MQTT connection...'',
      ClientConnect (mqtt_client_id P) (connect_result inp i)] @
     (if connect_result inp i
      then [SerialPrintln ''connected'',
            ClientPublish ''events'' (''Device '' @ mqtt_client_id P @ '' starting up''),
            ClientSubscribe cmd]
      else [SerialPrint ''failed, rc='', ClientState (client_state inp i),
            SerialPrint (print_int (client_state inp i)),
            SerialPrintln '' try again in 5 seconds'', Delay 5000])"

text \<open>What \<^verbatim>\<open>callback\<close> prints for one inbound message.\<close>

definition callback_events :: "string \<Rightarrow> string \<Rightarrow> 'f event list" where
  "callback_events t p =
     [SerialPrint ''Message arrived ['', SerialPrint t, SerialPrint ''] ''] @
     map (\<lambda>c. SerialPrint [c]) p @ [SerialPrintln '''']"

text \<open>
  Everything \<^verbatim>\<open>loop()\<close> adds to the trace before it reads the clock, when the
  \<^verbatim>\<open>while\<close> in \<^verbatim>\<open>reconnect()\<close> runs \<open>k\<close> rounds.
\<close>

definition link_events :: "'f platform \<Rightarrow> 'f inputs \<Rightarrow> string \<Rightarrow> nat \<Rightarrow> 'f event list" where
  "link_events P inp cmd k =
     ClientConnected (connected_top inp) #
     (if connected_top inp then []
      else concat (map (attempt_events P inp cmd) [0..<k]) @ [ClientConnected True]) @
     ClientLoop # concat (map (\<lambda>(t, p). callback_events t p) (inbound inp))"

text \<open>What the two sensor blocks add to the trace.\<close>

definition dht_events :: "'f platform \<Rightarrow> 'f calibration \<Rightarrow> 'f inputs \<Rightarrow> 'f state \<Rightarrow> 'f event list" where
  "dht_events P C inp s =
     (if dht_get inp = 0
      then [DhtGet 0,
            SerialPrint ''Temperature:  '',
            SerialPrintln (print_float P (fadd P (dht_cTemp inp) (temperature_adjustment C))),
            ClientPublish (temperature_topic s)
              (dtostrf P (fadd P (dht_cTemp inp) (temperature_adjustment C)) 4 2),
            SerialPrint ''Humidity:     '',
            SerialPrintln (print_float P (fadd P (dht_humidity inp) (humidity_adjustment C))),
            ClientPublish (humidity_topic s)
              (dtostrf P (fadd P (dht_humidity inp) (humidity_adjustment C)) 4 2)]
      else [DhtGet (dht_get inp)])"

definition baro_events :: "'f platform \<Rightarrow> 'f calibration \<Rightarrow> 'f inputs \<Rightarrow> 'f state \<Rightarrow> 'f event list" where
  "baro_events P C inp s =
     (if baro_isOK inp
      then [BaroIsOK True,
            SerialPrint ''Pressure:     '',
            BaroGetPressure (baro_getPressure inp),
            SerialPrintln (print_float P (fadd P (baro_getPressure inp) (pressure_adjustment C))),
            ClientPublish (pressure_topic s)
              (dtostrf P (fadd P (baro_getPressure inp) (pressure_adjustment C)) 6 2),
            SerialPrint ''Temperature2: '',
            BaroGetTemperature (baro_getTemperature inp),
            SerialPrintln (print_float P (fadd P (baro_getTemperature inp) (temperature_2_adjustment C))),
            ClientPublish (temperature_2_topic s)
              (dtostrf P (fadd P (baro_getTemperature inp) (temperature_2_adjustment C)) 4 2)]
      else [BaroIsOK False,
            SerialPrint ''Baro sensor not Found/OK. Error: '',
            BaroGetError (baro_getError inp),
            SerialPrintln (print_int (baro_getError inp)),
            BaroBegin])"

text \<open>The five topic strings.\<close>

definition topic_set :: "'f state \<Rightarrow> string \<times> string \<times> string \<times> string \<times> string" where
  "topic_set s =
     (humidity_topic s, temperature_topic s, pressure_topic s, temperature_2_topic s, command_topic s)"

text \<open>
  Every report cycle starts with exactly one call of \<^verbatim>\<open>dht12.get()\<close>, and nothing else
  calls it: the number of these calls in the trace is the number of reports made.
\<close>

fun is_dht_get :: "'f event \<Rightarrow> bool" where
  "is_dht_get (DhtGet _) = True"
| "is_dht_get _ = False"

definition reports_made :: "'f state \<Rightarrow> nat" where
  "reports_made s = length (filter is_dht_get (trace s))"

text \<open>The topic and payload of every publication in a list of events, in order.\<close>

fun publications :: "'f event list \<Rightarrow> (string \<times> string) list" where
  "publications [] = []"
| "publications (ClientPublish t p # es) = (t, p) # publications es"
| "publications (_ # es) = publications es"

text \<open>The events that a pass has added to the trace.\<close>

definition new_events :: "'f state \<Rightarrow> 'f state \<Rightarrow> 'f event list" where
  "new_events s s' = drop (length (trace s)) (trace s')"

text \<open>The calls of \<^verbatim>\<open>client.connect\<close>.\<close>

fun is_connect :: "'f event \<Rightarrow> bool" where
  "is_connect (ClientConnect _ _) = True"
| "is_connect _ = False"

text \<open>
  What the sketch relies on in \<^verbatim>\<open>PubSubClient\<close>: two polls of \<^verbatim>\<open>connected()\<close> with no
  call in between give the same answer, and the client does not report a connection right
  after a call of \<^verbatim>\<open>connect\<close> that failed.
\<close>

definition client_consistent :: "'f inputs \<Rightarrow> bool" where
  "client_consistent inp =
     (connected_poll inp 0 = connected_top inp \<and>
      (\<forall>i. connected_poll inp (Suc i) \<longrightarrow> connect_result inp i))"

section \<open>A bench configuration\<close>

text \<open>
  A concrete platform and concrete answers of the collaborators, used to run the model.
  Readings are counted in hundredths, so that addition is exact and the text of a value
  has two decimals; the chip identifier is \<open>a1b2\<close>.
\<close>

definition bench_dtostrf :: "int \<Rightarrow> int \<Rightarrow> nat \<Rightarrow> string" where
  "bench_dtostrf v w p =
     (let a = nat \<bar>v\<bar>;
          body = (if v < 0 then ''-'' else '''') @ radix_digits 10 (a div 100) @ ''.'' @
                 [digit_char (a mod 100 div 10), digit_char (a mod 10)]
      in replicate (nat w - length body) CHR '' '' @ body)"

definition bench_platform :: "int platform" where
  "bench_platform =
     \<lparr> getChipId = 0xa1b2, fadd = (+), float_lit = (\<lambda>n. 100 * n),
       dtostrf = bench_dtostrf, print_float = (\<lambda>v. bench_dtostrf v 0 2) \<rparr>"

definition bench_wifi :: wifi_inputs where
  "bench_wifi = \<lparr> wifi_status = (\<lambda>i. if i < 2 then 6 else 3), wifi_localIP = ''192.168.1.50'' \<rparr>"

text \<open>The globals as \<^verbatim>\<open>setup()\<close> leaves them on this chip, with an empty trace.\<close>

definition bench_state :: "int state" where
  "bench_state =
     \<lparr> next_report_time = 0, lastMsg = 0, msg = '''', device_id = ''a1b2'',
       humidity_topic = ''device/a1b2/humidity'', temperature_topic = ''device/a1b2/temperature'',
       pressure_topic = ''device/a1b2/pressure'', temperature_2_topic = ''device/a1b2/temperature2'',
       command_topic = ''device/a1b2/command'', trace = [] \<rparr>"

definition bench_inputs :: "u32 \<Rightarrow> int inputs" where
  "bench_inputs t =
     \<lparr> connected_top = True, connected_poll = (\<lambda>i. True), connect_result = (\<lambda>i. True),
       client_state = (\<lambda>i. 0), inbound = [], millis = t,
       dht_get = 0, dht_cTemp = 2650, dht_humidity = 4020,
       baro_isOK = True, baro_getError = 0, baro_getPressure = 101325, baro_getTemperature = 2710 \<rparr>"

text \<open>
  An outage on the bench: the client is disconnected at the top of the pass, the first
  attempt to connect fails with state \<open>-2\<close>, the second succeeds.
\<close>

definition bench_outage :: "u32 \<Rightarrow> int inputs" where
  "bench_outage t =
     (bench_inputs t)\<lparr>connected_top := False, connected_poll := (\<lambda>i. 2 \<le> i),
        connect_result := (\<lambda>i. 1 \<le> i), client_state := (\<lambda>i. - 2)\<rparr>"

section \<open>Traces of the building blocks\<close>

subsection \<open>Fields of a state after events have been added\<close>

lemma emit_fields [simp]:
  "trace (emit e s) = trace s @ [e]"
  "msg (emit e s) = msg s"
  "next_report_time (emit e s) = next_report_time s"
  "temperature_topic (emit e s) = temperature_topic s"
  "humidity_topic (emit e s) = humidity_topic s"
  "pressure_topic (emit e s) = pressure_topic s"
  "temperature_2_topic (emit e s) = temperature_2_topic s"
  "command_topic (emit e s) = command_topic s"
  "device_id (emit e s) = device_id s"
  "lastMsg (emit e s) = lastMsg s"
  by (simp_all add: emit_def)

lemma append_trace_fields [simp]:
  "trace (append_trace evs s) = trace s @ evs"
  "msg (append_trace evs s) = msg s"
  "next_report_time (append_trace evs s) = next_report_time s"
  "temperature_topic (append_trace evs s) = temperature_topic s"
  "humidity_topic (append_trace evs s) = humidity_topic s"
  "pressure_topic (append_trace evs s) = pressure_topic s"
  "temperature_2_topic (append_trace evs s) = temperature_2_topic s"
  "command_topic (append_trace evs s) = command_topic s"
  "device_id (append_trace evs s) = device_id s"
  "lastMsg (append_trace evs s) = lastMsg s"
  by (simp_all add: append_trace_def)

lemma append_trace_append: "append_trace ys (append_trace xs s) = append_trace (xs @ ys) s"
  by (simp add: append_trace_def)

lemma append_trace_Nil [simp]: "append_trace [] s = s"
  by (simp add: append_trace_def)

lemma append_trace_msg_update: "append_trace evs (s\<lparr>msg := m\<rparr>) = (append_trace evs s)\<lparr>msg := m\<rparr>"
  by (simp add: append_trace_def)

subsection \<open>The callback and the rounds of \<^verbatim>\<open>reconnect()\<close>\<close>

lemma fold_print_chars:
  "fold (\<lambda>c. emit (SerialPrint [c])) payload s = append_trace (map (\<lambda>c. SerialPrint [c]) payload) s"
proof (induction payload arbitrary: s)
  case Nil
  show ?case by simp
next
  case (Cons c cs)
  have "emit (SerialPrint [c]) s = append_trace [SerialPrint [c]] s"
    by (simp add: emit_def append_trace_def)
  then show ?case
    by (simp add: Cons.IH append_trace_append)
qed

lemma attempt_events_link: "list_all link_event (attempt_events P inp cmd i)"
  by (simp add: attempt_events_def)

lemma reconnect_attempt_events:
  "\<exists>m. reconnect_attempt P inp i (emit (ClientConnected False) s) =
        (append_trace (attempt_events P inp (command_topic s) i) s)\<lparr>msg := m\<rparr>"
proof (cases "connect_result inp i")
  case True
  then have "reconnect_attempt P inp i (emit (ClientConnected False) s) =
        (append_trace (attempt_events P inp (command_topic s) i) s)
          \<lparr>msg := ''Device '' @ mqtt_client_id P @ '' starting up''\<rparr>"
    by (simp add: reconnect_attempt_def attempt_events_def Let_def emit_def append_trace_def)
  then show ?thesis by blast
next
  case False
  then have "reconnect_attempt P inp i (emit (ClientConnected False) s) =
        (append_trace (attempt_events P inp (command_topic s) i) s)\<lparr>msg := msg s\<rparr>"
    by (simp add: reconnect_attempt_def attempt_events_def Let_def emit_def append_trace_def)
  then show ?thesis by blast
qed

lemma reconnect_while_induct [consumes 1, case_names base step]:
  assumes run: "reconnect_while P inp i s = Some s'"
    and base: "\<And>i s. connected_poll inp i \<Longrightarrow> Q i s (emit (ClientConnected True) s)"
    and step: "\<And>i s s'. \<not> connected_poll inp i \<Longrightarrow>
                 Q (Suc i) (reconnect_attempt P inp i (emit (ClientConnected False) s)) s' \<Longrightarrow>
                 Q i s s'"
  shows "Q i s s'"
proof -
  have "case (((P, inp), i), s) of
          (((P', inp'), i'), s0) \<Rightarrow> P' = P \<and> inp' = inp \<longrightarrow> Q i' s0 s'"
  proof (rule reconnect_while.raw_induct
      [where Pa = "\<lambda>x y. case x of (((P', inp'), i'), s0) \<Rightarrow> P' = P \<and> inp' = inp \<longrightarrow> Q i' s0 y",
       OF _ run])
    fix f :: "'a platform \<Rightarrow> 'a inputs \<Rightarrow> nat \<Rightarrow> 'a state \<Rightarrow> 'a state option"
    fix P0 inp0 i0 s0 y
    assume IH: "\<And>inp1 i1 s1 b y. f inp1 i1 s1 b = Some y \<Longrightarrow>
                  (case (((inp1, i1), s1), b) of
                     (((P', inp'), i'), s0) \<Rightarrow> P' = P \<and> inp' = inp \<longrightarrow> Q i' s0 y)"
    assume eq: "(if \<not> connected_poll inp0 i0
                 then f P0 inp0 (Suc i0)
                        (reconnect_attempt P0 inp0 i0 (emit (ClientConnected (connected_poll inp0 i0)) s0))
                 else Some (emit (ClientConnected (connected_poll inp0 i0)) s0)) = Some y"
    show "case (((P0, inp0), i0), s0) of
            (((P', inp'), i'), s0) \<Rightarrow> P' = P \<and> inp' = inp \<longrightarrow> Q i' s0 y"
    proof (cases "connected_poll inp0 i0")
      case True
      with eq base show ?thesis by auto
    next
      case False
      with eq have "f P0 inp0 (Suc i0) (reconnect_attempt P0 inp0 i0 (emit (ClientConnected False) s0)) = Some y"
        by simp
      from IH [OF this] False step show ?thesis by auto
    qed
  qed
  then show ?thesis by simp
qed

lemma reconnect_while_closed:
  assumes "reconnect_while P inp i s = Some s'"
  shows "\<exists>k m. i \<le> k \<and> connected_poll inp k \<and> (\<forall>j. i \<le> j \<longrightarrow> j < k \<longrightarrow> \<not> connected_poll inp j) \<and>
          s' = (append_trace (concat (map (attempt_events P inp (command_topic s)) [i..<k])
                  @ [ClientConnected True]) s)\<lparr>msg := m\<rparr>"
  using assms
proof (induction rule: reconnect_while_induct)
  case (base i s)
  have "emit (ClientConnected True) s =
        (append_trace (concat (map (attempt_events P inp (command_topic s)) [i..<i])
                  @ [ClientConnected True]) s)\<lparr>msg := msg s\<rparr>"
    by (simp add: emit_def append_trace_def)
  with base show ?case
    by (intro exI [of _ i] exI [of _ "msg s"] conjI) simp_all
next
  case (step i s s')
  let ?s1 = "reconnect_attempt P inp i (emit (ClientConnected False) s)"
  obtain m0 where m0: "?s1 = (append_trace (attempt_events P inp (command_topic s) i) s)\<lparr>msg := m0\<rparr>"
    using reconnect_attempt_events [of P inp i s] by (elim exE)
  from step.IH obtain k m where k: "Suc i \<le> k" "connected_poll inp k"
      "\<forall>j. Suc i \<le> j \<longrightarrow> j < k \<longrightarrow> \<not> connected_poll inp j"
      and s': "s' = (append_trace (concat (map (attempt_events P inp (command_topic ?s1)) [Suc i..<k])
                  @ [ClientConnected True]) ?s1)\<lparr>msg := m\<rparr>"
    by (elim exE conjE)
  have upt: "[i..<k] = i # [Suc i..<k]"
    using k(1) by (simp add: upt_conv_Cons)
  have cmd: "command_topic ?s1 = command_topic s"
    by (simp add: m0)
  have eq: "s' = (append_trace (concat (map (attempt_events P inp (command_topic s)) [i..<k])
                  @ [ClientConnected True]) s)\<lparr>msg := m\<rparr>"
    unfolding s' cmd unfolding m0 upt by (simp add: append_trace_def)
  have lt: "\<forall>j. i \<le> j \<longrightarrow> j < k \<longrightarrow> \<not> connected_poll inp j"
  proof (intro allI impI)
    fix j assume "i \<le> j" "j < k"
    show "\<not> connected_poll inp j"
    proof (cases "j = i")
      case True
      with step.hyps show ?thesis by simp
    next
      case False
      with \<open>i \<le> j\<close> have "Suc i \<le> j" by simp
      with k(3) \<open>j < k\<close> show ?thesis by simp
    qed
  qed
  have "i \<le> k" using k(1) by simp
  with k(2) lt eq show ?case
    by (intro exI [of _ k] exI [of _ m] conjI)
qed

subsection \<open>The blocks of \<^verbatim>\<open>loop()\<close> in closed form\<close>

lemma topic_set_emit [simp]: "topic_set (emit e s) = topic_set s"
  by (simp add: topic_set_def)

lemma topic_set_append_trace [simp]: "topic_set (append_trace evs s) = topic_set s"
  by (simp add: topic_set_def)

lemma topic_set_msg_update [simp]: "topic_set (s\<lparr>msg := m\<rparr>) = topic_set s"
  by (simp add: topic_set_def)

lemma topic_set_timer_update [simp]: "topic_set (s\<lparr>next_report_time := t\<rparr>) = topic_set s"
  by (simp add: topic_set_def)

lemma callback_events_link: "list_all link_event (callback_events t p)"
  by (simp add: callback_events_def list_all_iff)

lemma inbound_events_link:
  "list_all link_event (concat (map (\<lambda>(t, p). callback_events t p) ms))"
  by (induction ms) (auto simp: callback_events_link)

lemma attempts_link:
  "list_all link_event (concat (map (attempt_events P inp cmd) ks))"
  by (induction ks) (simp_all add: attempt_events_link)

lemma link_events_link: "list_all link_event (link_events P inp cmd k)"
  by (simp add: link_events_def attempts_link inbound_events_link)

lemma callback_closed: "callback t p s = append_trace (callback_events t p) s"
  by (simp add: callback_def callback_events_def fold_print_chars Let_def emit_def append_trace_def)

lemma fold_callback_closed:
  "fold (\<lambda>(t, p). callback t p) ms s =
   append_trace (concat (map (\<lambda>(t, p). callback_events t p) ms)) s"
proof (induction ms arbitrary: s)
  case Nil
  show ?case by simp
next
  case (Cons m ms)
  obtain t p where m: "m = (t, p)" by (cases m)
  have "fold (\<lambda>(t, p). callback t p) (m # ms) s =
        fold (\<lambda>(t, p). callback t p) ms (append_trace (callback_events t p) s)"
    by (simp add: m callback_closed)
  also have "\<dots> = append_trace (concat (map (\<lambda>(t, p). callback_events t p) ms))
                     (append_trace (callback_events t p) s)"
    by (rule Cons.IH)
  also have "\<dots> = append_trace (concat (map (\<lambda>(t, p). callback_events t p) (m # ms))) s"
    by (simp add: m append_trace_append)
  finally show ?case .
qed

lemma client_loop_closed:
  "client_loop inp s =
   append_trace (ClientLoop # concat (map (\<lambda>(t, p). callback_events t p) (inbound inp))) s"
proof -
  have "emit ClientLoop s = append_trace [ClientLoop] s"
    by (simp add: emit_def append_trace_def)
  then show ?thesis
    by (simp add: client_loop_def fold_callback_closed append_trace_append)
qed

lemma report_dht_trace: "trace (report_dht P C inp s) = trace s @ dht_events P C inp s"
  by (simp add: report_dht_def dht_events_def Let_def)

lemma report_dht_timer [simp]: "next_report_time (report_dht P C inp s) = next_report_time s"
  by (simp add: report_dht_def Let_def)

lemma report_dht_topics [simp]: "topic_set (report_dht P C inp s) = topic_set s"
  by (simp add: report_dht_def Let_def)

lemma report_dht_device_id [simp]: "device_id (report_dht P C inp s) = device_id s"
  by (simp add: report_dht_def Let_def)

lemma report_baro_trace: "trace (report_baro P C inp s) = trace s @ baro_events P C inp s"
  by (simp add: report_baro_def baro_events_def Let_def)

lemma report_baro_timer [simp]: "next_report_time (report_baro P C inp s) = next_report_time s"
  by (simp add: report_baro_def Let_def)

lemma report_baro_topics [simp]: "topic_set (report_baro P C inp s) = topic_set s"
  by (simp add: report_baro_def Let_def)

lemma report_baro_device_id [simp]: "device_id (report_baro P C inp s) = device_id s"
  by (simp add: report_baro_def Let_def)

lemma dht_events_cong: "topic_set s' = topic_set s \<Longrightarrow> dht_events P C inp s' = dht_events P C inp s"
  by (simp add: dht_events_def topic_set_def)

lemma baro_events_cong: "topic_set s' = topic_set s \<Longrightarrow> baro_events P C inp s' = baro_events P C inp s"
  by (simp add: baro_events_def topic_set_def)

lemma append_trace_msg_same: "(append_trace evs s)\<lparr>msg := msg s\<rparr> = append_trace evs s"
  by (simp add: append_trace_def)

lemma loop_report_trace:
  "trace (loop_report P C inp s) =
   trace s @ Millis (millis inp) #
     (if next_report_time s \<le> millis inp then dht_events P C inp s @ baro_events P C inp s else [])"
proof -
  have d: "dht_events P C inp (emit (Millis (millis inp)) s\<lparr>next_report_time := millis inp + 5000\<rparr>)
           = dht_events P C inp s"
    by (rule dht_events_cong) simp
  have b: "baro_events P C inp
             (report_dht P C inp (emit (Millis (millis inp)) s\<lparr>next_report_time := millis inp + 5000\<rparr>))
           = baro_events P C inp s"
    by (rule baro_events_cong) simp
  show ?thesis
    by (simp add: loop_report_def Let_def reporting_interval_def report_baro_trace report_dht_trace d b)
qed

lemma loop_report_timer:
  "next_report_time (loop_report P C inp s) =
   (if next_report_time s \<le> millis inp then millis inp + 5000 else next_report_time s)"
  by (simp add: loop_report_def Let_def reporting_interval_def)

lemma loop_report_topics [simp]: "topic_set (loop_report P C inp s) = topic_set s"
  by (simp add: loop_report_def Let_def)

lemma loop_report_device_id [simp]: "device_id (loop_report P C inp s) = device_id s"
  by (simp add: loop_report_def Let_def)

lemma loop_closed:
  assumes "loop P C inp s = Some s'"
  shows "\<exists>k m. (\<not> connected_top inp \<longrightarrow>
                   connected_poll inp k \<and> (\<forall>j<k. \<not> connected_poll inp j)) \<and>
               s' = loop_report P C inp
                      ((append_trace (link_events P inp (command_topic s) k) s)\<lparr>msg := m\<rparr>)"
proof (cases "connected_top inp")
  case True
  have "emit (ClientConnected True) s = append_trace [ClientConnected True] s"
    by (simp add: emit_def append_trace_def)
  with assms True have "s' = loop_report P C inp
       ((append_trace (link_events P inp (command_topic s) 0) s)\<lparr>msg := msg s\<rparr>)"
    by (simp add: loop_def Let_def client_loop_closed link_events_def append_trace_append
        append_trace_msg_same)
  with True show ?thesis
    by (intro exI [of _ 0] exI [of _ "msg s"] conjI) simp_all
next
  case False
  let ?s1 = "emit (ClientConnected False) s"
  from assms False obtain s2 where s2: "reconnect_while P inp 0 ?s1 = Some s2"
    and s': "s' = loop_report P C inp (client_loop inp s2)"
    by (auto simp: loop_def Let_def reconnect_def split: option.splits)
  from reconnect_while_closed [OF s2] obtain k m where k: "connected_poll inp k"
      "\<forall>j. 0 \<le> j \<longrightarrow> j < k \<longrightarrow> \<not> connected_poll inp j"
    and e2: "s2 = (append_trace (concat (map (attempt_events P inp (command_topic ?s1)) [0..<k])
                  @ [ClientConnected True]) ?s1)\<lparr>msg := m\<rparr>"
    by (elim exE conjE)
  have "emit (ClientConnected False) s = append_trace [ClientConnected False] s"
    by (simp add: emit_def append_trace_def)
  then have "client_loop inp s2 = (append_trace (link_events P inp (command_topic s) k) s)\<lparr>msg := m\<rparr>"
    using False unfolding e2
    by (simp add: client_loop_closed link_events_def append_trace_append append_trace_msg_update [symmetric])
  with s' have "s' = loop_report P C inp
       ((append_trace (link_events P inp (command_topic s) k) s)\<lparr>msg := m\<rparr>)"
    by simp
  with k False show ?thesis
    by (intro exI [of _ k] exI [of _ m] conjI) simp_all
qed

lemma loop_topics:
  assumes "loop P C inp s = Some s'"
  shows "topic_set s' = topic_set s"
proof -
  from loop_closed [OF assms] obtain k m where
    "s' = loop_report P C inp ((append_trace (link_events P inp (command_topic s) k) s)\<lparr>msg := m\<rparr>)"
    by (elim exE conjE)
  then show ?thesis by simp
qed

lemma loop_device_id:
  assumes "loop P C inp s = Some s'"
  shows "device_id s' = device_id s"
proof -
  from loop_closed [OF assms] obtain k m where
    "s' = loop_report P C inp ((append_trace (link_events P inp (command_topic s) k) s)\<lparr>msg := m\<rparr>)"
    by (elim exE conjE)
  then show ?thesis by simp
qed

lemma run_topics:
  "run P C inps s = Some s' \<Longrightarrow> topic_set s' = topic_set s \<and> device_id s' = device_id s"
proof (induction inps arbitrary: s)
  case Nil
  then show ?case by simp
next
  case (Cons inp inps)
  from Cons.prems obtain s1 where s1: "loop P C inp s = Some s1" and r: "run P C inps s1 = Some s'"
    by (auto split: option.splits)
  from Cons.IH [OF r] loop_topics [OF s1] loop_device_id [OF s1] show ?case by simp
qed

subsection \<open>\<^verbatim>\<open>setup()\<close> and the rendering of the chip identifier\<close>

lemma wifi_wait_induct [consumes 1, case_names base step]:
  assumes run: "wifi_wait w i s = Some s'"
    and base: "\<And>i s. wifi_status w i = WL_CONNECTED \<Longrightarrow> Q i s (emit (WiFiStatus (wifi_status w i)) s)"
    and step: "\<And>i s s'. wifi_status w i \<noteq> WL_CONNECTED \<Longrightarrow>
                 Q (Suc i) (emit (SerialPrint ''.'') (emit (Delay 500)
                     (emit (WiFiStatus (wifi_status w i)) s))) s' \<Longrightarrow>
                 Q i s s'"
  shows "Q i s s'"
proof -
  have "w = w \<longrightarrow> Q i s s'"
  proof (rule wifi_wait.raw_induct [where P = "\<lambda>w' i s y. w' = w \<longrightarrow> Q i s y", OF _ run])
    fix f :: "wifi_inputs \<Rightarrow> nat \<Rightarrow> 'a state \<Rightarrow> 'a state option"
    fix w0 i0 s0 y
    assume IH: "\<And>w1 i1 s1 y. f w1 i1 s1 = Some y \<Longrightarrow> w1 = w \<longrightarrow> Q i1 s1 y"
    assume eq: "(if wifi_status w0 i0 \<noteq> WL_CONNECTED
                 then f w0 (Suc i0) (emit (SerialPrint ''.'') (emit (Delay 500)
                        (emit (WiFiStatus (wifi_status w0 i0)) s0)))
                 else Some (emit (WiFiStatus (wifi_status w0 i0)) s0)) = Some y"
    show "w0 = w \<longrightarrow> Q i0 s0 y"
    proof (cases "wifi_status w0 i0 = WL_CONNECTED")
      case True
      with eq base show ?thesis by auto
    next
      case False
      with eq have "f w0 (Suc i0) (emit (SerialPrint ''.'') (emit (Delay 500)
                        (emit (WiFiStatus (wifi_status w0 i0)) s0))) = Some y"
        by simp
      from IH [OF this] False step show ?thesis by auto
    qed
  qed
  then show ?thesis by simp
qed

lemma wifi_wait_closed:
  "wifi_wait w i s = Some s' \<Longrightarrow> \<exists>evs. s' = append_trace evs s"
proof (induction rule: wifi_wait_induct)
  case (base i s)
  have "emit (WiFiStatus (wifi_status w i)) s = append_trace [WiFiStatus (wifi_status w i)] s"
    by (simp add: emit_def append_trace_def)
  then show ?case by (rule exI)
next
  case (step i s s')
  let ?s1 = "emit (SerialPrint ''.'') (emit (Delay 500) (emit (WiFiStatus (wifi_status w i)) s))"
  from step.IH obtain evs where "s' = append_trace evs ?s1" by (elim exE)
  then have "s' = append_trace ([WiFiStatus (wifi_status w i), Delay 500, SerialPrint ''.''] @ evs) s"
    by (simp add: emit_def append_trace_def)
  then show ?case by (rule exI)
qed

lemma setup_wifi_closed:
  assumes "setup_wifi w s = Some s'"
  shows "\<exists>evs. s' = append_trace evs s"
proof -
  let ?s5 = "emit (WiFiBegin ssid password) (emit (SerialPrintln ssid)
              (emit (SerialPrint ''Connecting to SSID '') (emit (SerialPrintln '''') (emit (Delay 10) s))))"
  from assms obtain s6 where s6: "wifi_wait w 0 ?s5 = Some s6"
    and s': "s' = emit (SerialPrintln (wifi_localIP w)) (emit (WiFiLocalIP (wifi_localIP w))
               (emit (SerialPrint ''IP address: '') (emit (SerialPrintln ''WiFi connected'')
                 (emit (SerialPrintln '''') s6))))"
    by (auto simp: setup_wifi_def Let_def split: option.splits)
  from wifi_wait_closed [OF s6] obtain evs where "s6 = append_trace evs ?s5" by (elim exE)
  with s' have "s' = append_trace ([Delay 10, SerialPrintln '''', SerialPrint ''Connecting to SSID '',
       SerialPrintln ssid, WiFiBegin ssid password] @ evs @ [SerialPrintln '''',
       SerialPrintln ''WiFi connected'', SerialPrint ''IP address: '', WiFiLocalIP (wifi_localIP w),
       SerialPrintln (wifi_localIP w)]) s"
    by (simp add: emit_def append_trace_def)
  then show ?thesis by (rule exI)
qed

lemma sketch_setup_fields:
  assumes "sketch_setup P w s = Some s'"
  shows "topic_set s' =
           (''device/'' @ hex (getChipId P) @ ''/humidity'',
            ''device/'' @ hex (getChipId P) @ ''/temperature'',
            ''device/'' @ hex (getChipId P) @ ''/pressure'',
            ''device/'' @ hex (getChipId P) @ ''/temperature2'',
            ''device/'' @ hex (getChipId P) @ ''/command'')"
    and "device_id s' = hex (getChipId P)"
    and "next_report_time s' = next_report_time s"
proof -
  from assms obtain s22 s23 where s23: "setup_wifi w s22 = Some s23"
    and s': "s' = emit BaroBegin (emit SetCallback (emit (SetServer mqtt_broker 1883) s23))"
    and t22: "topic_set s22 =
           (''device/'' @ hex (getChipId P) @ ''/humidity'',
            ''device/'' @ hex (getChipId P) @ ''/temperature'',
            ''device/'' @ hex (getChipId P) @ ''/pressure'',
            ''device/'' @ hex (getChipId P) @ ''/temperature2'',
            ''device/'' @ hex (getChipId P) @ ''/command'')"
    and d22: "device_id s22 = hex (getChipId P)"
    and n22: "next_report_time s22 = next_report_time s"
    by (auto simp: sketch_setup_def Let_def topic_set_def split: option.splits)
  from setup_wifi_closed [OF s23] obtain evs where e: "s23 = append_trace evs s22" by (elim exE)
  show "topic_set s' =
           (''device/'' @ hex (getChipId P) @ ''/humidity'',
            ''device/'' @ hex (getChipId P) @ ''/temperature'',
            ''device/'' @ hex (getChipId P) @ ''/pressure'',
            ''device/'' @ hex (getChipId P) @ ''/temperature2'',
            ''device/'' @ hex (getChipId P) @ ''/command'')"
    by (simp add: s' e t22)
  show "device_id s' = hex (getChipId P)"
    by (simp add: s' e d22)
  show "next_report_time s' = next_report_time s"
    by (simp add: s' e n22)
qed

lemma digit_char_in: "d < 16 \<Longrightarrow> digit_char d \<in> set ''0123456789abcdef''"
  unfolding digit_char_def by (rule nth_mem) simp

lemma radix_digits_hex_chars: "set (radix_digits 16 n) \<subseteq> set ''0123456789abcdef''"
proof (induction n rule: less_induct)
  case (less n)
  show ?case
  proof (cases "n < 16")
    case True
    then show ?thesis using digit_char_in [of n] by simp
  next
    case False
    then have "n div 16 < n" by simp
    from less.IH [OF this] digit_char_in [of "n mod 16"] False show ?thesis
      by (subst radix_digits.simps) simp
  qed
qed

lemma digit_char_nonzero: "0 < d \<Longrightarrow> d < 16 \<Longrightarrow> digit_char d \<noteq> CHR ''0''"
proof -
  assume "0 < d" "d < 16"
  then have "d \<in> set [1..<16]" by simp
  moreover have "\<forall>d \<in> set [1..<16]. digit_char d \<noteq> CHR ''0''" by code_simp
  ultimately show ?thesis by blast
qed

lemma radix_digits_nonempty: "radix_digits b n \<noteq> []"
  by (subst radix_digits.simps) simp

lemma radix_digits_no_leading_zero: "0 < n \<Longrightarrow> hd (radix_digits 16 n) \<noteq> CHR ''0''"
proof (induction n rule: less_induct)
  case (less n)
  show ?case
  proof (cases "n < 16")
    case True
    with less.prems show ?thesis using digit_char_nonzero [of n] by simp
  next
    case False
    then have "n div 16 < n" "0 < n div 16" by (simp_all add: div_greater_zero_iff)
    from less.IH [OF this] False show ?thesis
      by (subst radix_digits.simps) (simp add: radix_digits_nonempty)
  qed
qed

subsection \<open>One pass of \<^verbatim>\<open>loop()\<close>\<close>

lemma dht_events_advanced [simp]:
  "dht_events P C inp ((append_trace evs s)\<lparr>msg := m\<rparr>) = dht_events P C inp s"
  by (rule dht_events_cong) simp

lemma baro_events_advanced [simp]:
  "baro_events P C inp ((append_trace evs s)\<lparr>msg := m\<rparr>) = baro_events P C inp s"
  by (rule baro_events_cong) simp

lemma loop_trace:
  assumes "loop P C inp s = Some s'"
  shows "\<exists>k. (\<not> connected_top inp \<longrightarrow> connected_poll inp k \<and> (\<forall>j<k. \<not> connected_poll inp j)) \<and>
             trace s' = trace s @ link_events P inp (command_topic s) k @ Millis (millis inp) #
               (if next_report_time s \<le> millis inp
                then dht_events P C inp s @ baro_events P C inp s else [])"
proof -
  from loop_closed [OF assms] obtain k m where
    k: "\<not> connected_top inp \<longrightarrow> connected_poll inp k \<and> (\<forall>j<k. \<not> connected_poll inp j)" and
    s': "s' = loop_report P C inp ((append_trace (link_events P inp (command_topic s) k) s)\<lparr>msg := m\<rparr>)"
    by (elim exE conjE)
  have "trace s' = trace s @ link_events P inp (command_topic s) k @ Millis (millis inp) #
               (if next_report_time s \<le> millis inp
                then dht_events P C inp s @ baro_events P C inp s else [])"
    unfolding s' by (simp add: loop_report_trace)
  with k show ?thesis by (intro exI [of _ k] conjI)
qed

lemma loop_timer:
  assumes "loop P C inp s = Some s'"
  shows "next_report_time s' =
         (if next_report_time s \<le> millis inp then millis inp + 5000 else next_report_time s)"
proof -
  from loop_closed [OF assms] obtain k m where
    s': "s' = loop_report P C inp ((append_trace (link_events P inp (command_topic s) k) s)\<lparr>msg := m\<rparr>)"
    by (elim exE conjE)
  show ?thesis unfolding s' by (simp add: loop_report_timer)
qed

lemma loop_cycle:
  assumes "loop P C inp s = Some s'"
  shows "\<exists>pre. list_all link_event pre \<and>
          trace s' = trace s @ pre @ Millis (millis inp) #
               (if next_report_time s \<le> millis inp
                then dht_events P C inp s @ baro_events P C inp s else [])"
proof -
  from loop_trace [OF assms] obtain k where
    "trace s' = trace s @ link_events P inp (command_topic s) k @ Millis (millis inp) #
               (if next_report_time s \<le> millis inp
                then dht_events P C inp s @ baro_events P C inp s else [])"
    by (elim exE conjE)
  with link_events_link [of P inp "command_topic s" k] show ?thesis
    by (intro exI [of _ "link_events P inp (command_topic s) k"] conjI)
qed

lemma dht_events_first: "\<exists>rest. dht_events P C inp s = DhtGet (dht_get inp) # rest"
  by (simp add: dht_events_def)

lemma loop_fires:
  assumes "loop P C inp s = Some s'" and "next_report_time s \<le> millis inp"
  shows "\<exists>pre rest. list_all link_event pre \<and>
           trace s' = trace s @ pre @ Millis (millis inp) # DhtGet (dht_get inp) # rest"
proof -
  from loop_cycle [OF assms(1)] assms(2) obtain pre where
    pre: "list_all link_event pre" and
    t: "trace s' = trace s @ pre @ Millis (millis inp) # (dht_events P C inp s @ baro_events P C inp s)"
    by (elim exE conjE) simp
  obtain rest where r: "dht_events P C inp s = DhtGet (dht_get inp) # rest"
    using dht_events_first [of P C inp s] by (elim exE)
  from t have "trace s' = trace s @ pre @ Millis (millis inp) # DhtGet (dht_get inp) #
                 (rest @ baro_events P C inp s)"
    by (simp add: r)
  with pre show ?thesis
    by (intro exI [of _ pre] exI [of _ "rest @ baro_events P C inp s"] conjI)
qed

lemma loop_idle:
  assumes "loop P C inp s = Some s'" and "\<not> next_report_time s \<le> millis inp"
  shows "\<exists>pre. list_all link_event pre \<and> trace s' = trace s @ pre @ [Millis (millis inp)]"
proof -
  from loop_cycle [OF assms(1)] assms(2) obtain pre where
    "list_all link_event pre" "trace s' = trace s @ pre @ [Millis (millis inp)]"
    by (elim exE conjE) simp
  then show ?thesis
    by (intro exI [of _ pre] conjI)
qed

lemma unat_plus_5000: "unat ((t :: u32) + 5000) = (unat t + 5000) mod 2 ^ 32"
  by (simp add: unat_word_ariths)

text \<open>On the bench the client is connected at the top of every pass.\<close>

lemma bench_loop_returns:
  "loop bench_platform C (bench_inputs t) s =
   Some (loop_report bench_platform C (bench_inputs t)
           (client_loop (bench_inputs t) (emit (ClientConnected True) s)))"
  by (simp add: loop_def bench_inputs_def Let_def)

lemma loop_report_due:
  assumes "next_report_time s \<le> millis inp"
  shows "loop_report P C inp s =
         report_baro P C inp (report_dht P C inp
           ((emit (Millis (millis inp)) s)\<lparr>next_report_time := millis inp + 5000\<rparr>))"
  using assms by (simp add: loop_report_def Let_def reporting_interval_def)

lemma link_event_not_dht_get: "link_event e \<Longrightarrow> \<not> is_dht_get e"
  by (cases e) simp_all

lemma filter_dht_get_link: "list_all link_event pre \<Longrightarrow> filter is_dht_get pre = []"
  by (induction pre) (simp_all add: link_event_not_dht_get)

lemma filter_dht_get_dht_events: "length (filter is_dht_get (dht_events P C inp s)) = 1"
  by (simp add: dht_events_def)

lemma filter_dht_get_baro_events: "filter is_dht_get (baro_events P C inp s) = []"
  by (simp add: baro_events_def)

lemma loop_reports_made:
  assumes "loop P C inp s = Some s'"
  shows "reports_made s' = reports_made s + (if next_report_time s \<le> millis inp then 1 else 0)"
proof -
  from loop_cycle [OF assms] obtain pre where
    pre: "list_all link_event pre" and
    t: "trace s' = trace s @ pre @ Millis (millis inp) #
               (if next_report_time s \<le> millis inp
                then dht_events P C inp s @ baro_events P C inp s else [])"
    by (elim exE conjE)
  show ?thesis
    unfolding reports_made_def t
    by (simp add: filter_dht_get_link [OF pre] filter_dht_get_dht_events filter_dht_get_baro_events)
qed

lemma publications_append: "publications (xs @ ys) = publications xs @ publications ys"
  by (induction xs rule: publications.induct) simp_all

lemma report_dht_msg:
  "msg (report_dht P C inp s) =
   (if dht_get inp = 0 then dtostrf P (fadd P (dht_humidity inp) (humidity_adjustment C)) 4 2
    else msg s)"
  by (simp add: report_dht_def Let_def)

lemma report_baro_msg:
  "msg (report_baro P C inp s) =
   (if baro_isOK inp then dtostrf P (fadd P (baro_getTemperature inp) (temperature_2_adjustment C)) 4 2
    else msg s)"
  by (simp add: report_baro_def Let_def)

text \<open>
  The connection handling of a pass reads only the answers of the MQTT client: two inputs
  that agree on them lead to the same state in front of the due check.
\<close>

lemma reconnect_attempt_cong:
  "connect_result inp' = connect_result inp \<Longrightarrow> client_state inp' = client_state inp \<Longrightarrow>
   reconnect_attempt P inp' i s = reconnect_attempt P inp i s"
  by (simp add: reconnect_attempt_def Let_def)

lemma reconnect_while_cong:
  assumes run: "reconnect_while P inp i s = Some s'"
    and eqs: "connected_poll inp' = connected_poll inp" "connect_result inp' = connect_result inp"
      "client_state inp' = client_state inp"
  shows "reconnect_while P inp' i s = Some s'"
  using run
proof (induction rule: reconnect_while_induct)
  case (base i s)
  then show ?case
    by (subst reconnect_while.simps) (simp add: eqs)
next
  case (step i s s')
  then show ?case
    by (subst reconnect_while.simps) (simp add: eqs reconnect_attempt_cong [OF eqs(2,3)])
qed

lemma loop_same_link:
  assumes run: "loop P C inp s = Some s'"
    and eqs: "connected_top inp' = connected_top inp" "connected_poll inp' = connected_poll inp"
      "connect_result inp' = connect_result inp" "client_state inp' = client_state inp"
      "inbound inp' = inbound inp"
  shows "\<exists>k m. s' = loop_report P C inp
                      ((append_trace (link_events P inp (command_topic s) k) s)\<lparr>msg := m\<rparr>) \<and>
               loop P C inp' s = Some (loop_report P C inp'
                      ((append_trace (link_events P inp (command_topic s) k) s)\<lparr>msg := m\<rparr>))"
proof (cases "connected_top inp")
  case True
  have e: "emit (ClientConnected True) s = append_trace [ClientConnected True] s"
    by (simp add: emit_def append_trace_def)
  from run True e have a: "s' = loop_report P C inp
       ((append_trace (link_events P inp (command_topic s) 0) s)\<lparr>msg := msg s\<rparr>)"
    by (simp add: loop_def Let_def client_loop_closed link_events_def append_trace_append
        append_trace_msg_same)
  from True eqs have b: "loop P C inp' s = Some (loop_report P C inp'
       ((append_trace (link_events P inp (command_topic s) 0) s)\<lparr>msg := msg s\<rparr>))"
    by (simp add: loop_def Let_def client_loop_closed link_events_def append_trace_append
        append_trace_msg_same e)
  from a b show ?thesis
    by (intro exI [of _ 0] exI [of _ "msg s"] conjI)
next
  case False
  let ?s1 = "emit (ClientConnected False) s"
  from run False obtain s2 where s2: "reconnect_while P inp 0 ?s1 = Some s2"
    and s': "s' = loop_report P C inp (client_loop inp s2)"
    by (auto simp: loop_def Let_def reconnect_def split: option.splits)
  from reconnect_while_cong [OF s2 eqs(2,3,4)] have s2': "reconnect_while P inp' 0 ?s1 = Some s2" .
  from False eqs(1) s2' have l': "loop P C inp' s = Some (loop_report P C inp' (client_loop inp' s2))"
    by (simp add: loop_def Let_def reconnect_def)
  from reconnect_while_closed [OF s2] obtain k m where
    e2: "s2 = (append_trace (concat (map (attempt_events P inp (command_topic ?s1)) [0..<k])
                  @ [ClientConnected True]) ?s1)\<lparr>msg := m\<rparr>"
    by (elim exE conjE)
  have e: "emit (ClientConnected False) s = append_trace [ClientConnected False] s"
    by (simp add: emit_def append_trace_def)
  have c: "client_loop inp s2 = (append_trace (link_events P inp (command_topic s) k) s)\<lparr>msg := m\<rparr>"
    using False e unfolding e2
    by (simp add: client_loop_closed link_events_def append_trace_append append_trace_msg_update [symmetric])
  have c': "client_loop inp' s2 = client_loop inp s2"
    by (simp add: client_loop_def eqs(5))
  from s' c have a: "s' = loop_report P C inp
       ((append_trace (link_events P inp (command_topic s) k) s)\<lparr>msg := m\<rparr>)"
    by simp
  from l' c c' have b: "loop P C inp' s = Some (loop_report P C inp'
       ((append_trace (link_events P inp (command_topic s) k) s)\<lparr>msg := m\<rparr>))"
    by simp
  from a b show ?thesis
    by (intro exI [of _ k] exI [of _ m] conjI)
qed

lemma new_events_append: "trace s' = trace s @ evs \<Longrightarrow> new_events s s' = evs"
  by (simp add: new_events_def)

lemma count_baro_begin_link: "list_all link_event pre \<Longrightarrow> count_list pre BaroBegin = 0"
  by (induction pre) auto

lemma publications_link: "list_all link_event pre \<Longrightarrow> fst ` set (publications pre) \<subseteq> {''events''}"
  by (induction pre rule: publications.induct) auto

lemma publications_dht_events:
  "fst ` set (publications (dht_events P C inp s)) \<subseteq> {temperature_topic s, humidity_topic s}"
  by (simp add: dht_events_def)

text \<open>The two unbounded waits return as soon as the collaborator answers favourably.\<close>

lemma wifi_wait_returns:
  "wifi_status w (i + n) = WL_CONNECTED \<Longrightarrow> \<exists>y. wifi_wait w i s = Some y"
proof (induction n arbitrary: i s)
  case 0
  then show ?case by (subst wifi_wait.simps) simp
next
  case (Suc n)
  show ?case
  proof (cases "wifi_status w i = WL_CONNECTED")
    case True
    then show ?thesis by (subst wifi_wait.simps) simp
  next
    case False
    from Suc.prems have "wifi_status w (Suc i + n) = WL_CONNECTED" by simp
    from Suc.IH [OF this] False show ?thesis by (subst wifi_wait.simps) simp
  qed
qed

lemma sketch_setup_returns:
  assumes "wifi_status w n = WL_CONNECTED"
  shows "\<exists>y. sketch_setup P w s = Some y"
proof -
  have ww: "wifi_wait w 0 x \<noteq> None" for x :: "'a state"
    using wifi_wait_returns [of w 0 n x] assms by auto
  have sw: "setup_wifi w x \<noteq> None" for x :: "'a state"
    by (simp add: setup_wifi_def Let_def ww split: option.split)
  show ?thesis
    by (simp add: sketch_setup_def Let_def sw split: option.split)
qed

lemma reconnect_while_returns:
  "connected_poll inp (i + n) \<Longrightarrow> \<exists>y. reconnect_while P inp i s = Some y"
proof (induction n arbitrary: i s)
  case 0
  then show ?case by (subst reconnect_while.simps) simp
next
  case (Suc n)
  show ?case
  proof (cases "connected_poll inp i")
    case True
    then show ?thesis by (subst reconnect_while.simps) simp
  next
    case False
    from Suc.prems have "connected_poll inp (Suc i + n)" by simp
    from Suc.IH [OF this] False show ?thesis by (subst reconnect_while.simps) simp
  qed
qed

lemma loop_returns:
  assumes "connected_top inp \<or> connected_poll inp n"
  shows "\<exists>y. loop P C inp s = Some y"
proof (cases "connected_top inp")
  case True
  then show ?thesis by (simp add: loop_def Let_def)
next
  case False
  with assms have "connected_poll inp (0 + n)" by simp
  from reconnect_while_returns [OF this]
  have "reconnect_while P inp 0 x \<noteq> None" for x :: "'a state" by auto
  with False show ?thesis
    by (simp add: loop_def Let_def reconnect_def split: option.split)
qed

lemma callback_events_no_connect: "list_all (\<lambda>e. \<not> is_connect e) (callback_events t p)"
  by (simp add: callback_events_def list_all_iff)

lemma inbound_events_no_connect:
  "list_all (\<lambda>e. \<not> is_connect e) (concat (map (\<lambda>(t, p). callback_events t p) ms))"
  by (induction ms) (auto simp: callback_events_no_connect)

lemma dht_events_no_connect: "list_all (\<lambda>e. \<not> is_connect e) (dht_events P C inp s)"
  by (simp add: dht_events_def)

lemma baro_events_no_connect: "list_all (\<lambda>e. \<not> is_connect e) (baro_events P C inp s)"
  by (simp add: baro_events_def)

lemma bench_outage_rounds:
  assumes "connected_poll (bench_outage t) k \<and> (\<forall>j<k. \<not> connected_poll (bench_outage t) j)"
  shows "k = 2"
proof -
  from assms have a: "2 \<le> k" and b: "\<forall>j<k. \<not> 2 \<le> j"
    by (simp_all add: bench_outage_def)
  have "\<not> 2 < k"
  proof
    assume "2 < k"
    with b have "\<not> (2::nat) \<le> 2" by blast
    then show False by simp
  qed
  with a show ?thesis by simp
qed

text \<open>
  The character arrays of the sketch are modelled as strings without a bound.  The chip
  identifier has at most eight hexadecimal digits, so what \<^verbatim>\<open>sprintf\<close> writes fits
  the arrays it is written to: the topics (50 bytes), the client identifier (20 bytes)
  and the announcement in \<^verbatim>\<open>msg\<close> (75 bytes), each with its terminating zero.
\<close>

lemma radix_digits_length:
  "0 < k \<Longrightarrow> n < 16 ^ k \<Longrightarrow> length (radix_digits 16 n) \<le> k"
proof (induction k arbitrary: n)
  case 0
  then show ?case by simp
next
  case (Suc k)
  show ?case
  proof (cases "n < 16")
    case True
    then show ?thesis by simp
  next
    case False
    with Suc.prems have k: "0 < k" by (cases k) simp_all
    from Suc.prems have "n div 16 < 16 ^ k"
      by (simp add: less_mult_imp_div_less mult.commute)
    from Suc.IH [OF k this] False show ?thesis
      by (subst radix_digits.simps) simp
  qed
qed

lemma hex_length: "length (hex w) \<le> 8"
proof -
  have "unat w < 2 ^ 32"
    using unsigned_less [of w] by simp
  then have "unat w < 16 ^ 8" by simp
  then show ?thesis
    unfolding hex_def by (intro radix_digits_length) simp_all
qed

lemma buffers_suffice:
  assumes "sketch_setup P w s0 = Some s"
  shows "length (humidity_topic s) < 50" and "length (temperature_topic s) < 50"
    and "length (pressure_topic s) < 50" and "length (temperature_2_topic s) < 50"
    and "length (command_topic s) < 50" and "length (mqtt_client_id P) < 20"
    and "length (''Device '' @ mqtt_client_id P @ '' starting up'') < 75"
  using sketch_setup_fields(1) [OF assms] hex_length [of "getChipId P"]
  by (simp_all add: topic_set_def mqtt_client_id_def)

section \<open>The reporting timer\<close>

text \<open>
  Claim C1 says that reports fire at 0, 5, 10, 15, ... seconds because the timer is
  advanced from its previous due time.  On the bench, with passes of \<^verbatim>\<open>loop()\<close> that
  read the clock at 0, 5003 and 10001 ms, the second report sets the due time to 10003,
  not to 10000, and the pass at 10001 makes no third report.
\<close>

theorem cadence_counterexample:
  "map_option next_report_time
     (run bench_platform (sketch_calibration bench_platform)
        [bench_inputs 0, bench_inputs 5003] bench_state) = Some 10003 \<and>
   map_option reports_made
     (run bench_platform (sketch_calibration bench_platform)
        [bench_inputs 0, bench_inputs 5003, bench_inputs 10001] bench_state) = Some 2"
proof -
  let ?C = "sketch_calibration bench_platform"
  obtain s1 where s1: "loop bench_platform ?C (bench_inputs 0) bench_state = Some s1"
    by (simp add: bench_loop_returns)
  obtain s2 where s2: "loop bench_platform ?C (bench_inputs 5003) s1 = Some s2"
    by (simp add: bench_loop_returns)
  obtain s3 where s3: "loop bench_platform ?C (bench_inputs 10001) s2 = Some s3"
    by (simp add: bench_loop_returns)
  have m: "millis (bench_inputs 0 :: int inputs) = 0" "millis (bench_inputs 5003 :: int inputs) = 5003"
    "millis (bench_inputs 10001 :: int inputs) = 10001"
    by (simp_all add: bench_inputs_def)
  have n0: "next_report_time bench_state = 0" and r0: "reports_made bench_state = 0"
    by (simp_all add: bench_state_def reports_made_def)
  have n1: "next_report_time s1 = 5000" using loop_timer [OF s1] by (simp add: m n0)
  have n2: "next_report_time s2 = 10003" using loop_timer [OF s2] by (simp add: m n1)
  have r1: "reports_made s1 = 1" using loop_reports_made [OF s1] by (simp add: m n0 r0)
  have r2: "reports_made s2 = 2" using loop_reports_made [OF s2] by (simp add: m n1 r1)
  have r3: "reports_made s3 = 2" using loop_reports_made [OF s3] by (simp add: m n2 r2)
  show ?thesis by (simp add: s1 s2 s3 n2 r3)
qed

text \<open>
  Claim C1, as the sketch has it.  The timer starts at 0 and \<^verbatim>\<open>setup()\<close> leaves it
  there, so the first pass that reaches the due check reports, whatever the clock reads.
  A pass reports exactly when its clock reading has reached the due time, and it then
  sets the due time to that clock reading plus 5000 ms (modulo \<open>2 ^ 32\<close>): the timer is
  advanced from the clock reading of the pass, which is taken once, before the sensors
  are read.  While that sum does not wrap, a later pass is due exactly when its clock
  reading is at least 5000 ms after the reading of the reporting pass.
\<close>

theorem report_due_from_clock_reading:
  assumes "loop P C inp s = Some s'"
  shows "(\<forall>w s0. sketch_setup P w (initial_state :: 'a state) = Some s0 \<longrightarrow> next_report_time s0 = 0) \<and>
         (next_report_time s = 0 \<longrightarrow> next_report_time s \<le> millis inp) \<and>
         (if next_report_time s \<le> millis inp
          then reports_made s' = reports_made s + 1 \<and> next_report_time s' = millis inp + 5000
          else reports_made s' = reports_made s \<and> next_report_time s' = next_report_time s) \<and>
         (next_report_time s \<le> millis inp \<and> unat (millis inp) + 5000 < 2 ^ 32 \<longrightarrow>
            (\<forall>inp2 :: 'a inputs.
               (next_report_time s' \<le> millis inp2) = (unat (millis inp) + 5000 \<le> unat (millis inp2))))"
proof (intro conjI)
  show "\<forall>w s0. sketch_setup P w (initial_state :: 'a state) = Some s0 \<longrightarrow> next_report_time s0 = 0"
  proof (intro allI impI)
    fix w and s0 :: "'a state"
    assume "sketch_setup P w (initial_state :: 'a state) = Some s0"
    from sketch_setup_fields(3) [OF this] show "next_report_time s0 = 0"
      by (simp add: initial_state_def)
  qed
  show "next_report_time s = 0 \<longrightarrow> next_report_time s \<le> millis inp"
    by simp
  show "if next_report_time s \<le> millis inp
          then reports_made s' = reports_made s + 1 \<and> next_report_time s' = millis inp + 5000
          else reports_made s' = reports_made s \<and> next_report_time s' = next_report_time s"
    using loop_timer [OF assms] loop_reports_made [OF assms] by simp
  show "next_report_time s \<le> millis inp \<and> unat (millis inp) + 5000 < 2 ^ 32 \<longrightarrow>
            (\<forall>inp2 :: 'a inputs.
               (next_report_time s' \<le> millis inp2) = (unat (millis inp) + 5000 \<le> unat (millis inp2)))"
  proof (intro impI allI, elim conjE)
    fix inp2 :: "'a inputs"
    assume due: "next_report_time s \<le> millis inp" and nowrap: "unat (millis inp) + 5000 < 2 ^ 32"
    from loop_timer [OF assms] due have "next_report_time s' = millis inp + 5000" by simp
    with nowrap have "unat (next_report_time s') = unat (millis inp) + 5000"
      by (simp add: unat_plus_5000)
    then show "(next_report_time s' \<le> millis inp2) = (unat (millis inp) + 5000 \<le> unat (millis inp2))"
      by (simp add: word_le_nat_alt)
  qed
qed

theorem report_due_from_clock_reading_witness:
  "\<exists>s1. loop bench_platform (sketch_calibration bench_platform) (bench_inputs 5003)
           (bench_state\<lparr>next_report_time := 5000\<rparr>) = Some s1
     \<and> next_report_time s1 = 10003
     \<and> reports_made s1 = 1
     \<and> \<not> next_report_time s1 \<le> millis (bench_inputs 10001 :: int inputs)
     \<and> next_report_time s1 \<le> millis (bench_inputs 10003 :: int inputs)"
proof -
  let ?C = "sketch_calibration bench_platform"
  obtain s1 where s1: "loop bench_platform ?C (bench_inputs 5003)
           (bench_state\<lparr>next_report_time := 5000\<rparr>) = Some s1"
    by (simp add: bench_loop_returns)
  have m: "millis (bench_inputs 5003 :: int inputs) = 5003"
    "millis (bench_inputs 10001 :: int inputs) = 10001"
    "millis (bench_inputs 10003 :: int inputs) = 10003"
    by (simp_all add: bench_inputs_def)
  have r0: "reports_made (bench_state\<lparr>next_report_time := 5000\<rparr>) = 0"
    by (simp add: bench_state_def reports_made_def)
  note T = report_due_from_clock_reading [OF s1]
  from T have a: "next_report_time s1 = 10003" and b: "reports_made s1 = 1"
    by (simp_all add: m r0)
  from T have c: "\<not> next_report_time s1 \<le> millis (bench_inputs 10001 :: int inputs)"
    and d: "next_report_time s1 \<le> millis (bench_inputs 10003 :: int inputs)"
    by (simp_all add: m)
  from s1 a b c d show ?thesis by (intro exI [of _ s1] conjI)
qed

text \<open>
  Claim C9.  When the due check succeeds the timer is advanced unconditionally, before
  \<^verbatim>\<open>dht12.get()\<close> and \<^verbatim>\<open>BaroSensor.isOK()\<close> are called.  So also in a cycle in
  which the DHT12 read fails and the pressure sensor is unhealthy, where nothing is
  published, the next report is due one full interval after the clock reading of this
  pass, and a pass that reads the clock before that does not consult the sensors again.
\<close>

theorem timer_advanced_before_sensors:
  assumes "loop P C inp s = Some s'" and "next_report_time s \<le> millis inp"
  shows "next_report_time s' = millis inp + 5000 \<and>
         (\<exists>pre s1. list_all link_event pre \<and>
            trace s1 = trace s @ pre @ [Millis (millis inp)] \<and>
            next_report_time s1 = millis inp + 5000 \<and>
            s' = report_baro P C inp (report_dht P C inp s1)) \<and>
         (dht_get inp \<noteq> 0 \<and> \<not> baro_isOK inp \<longrightarrow>
            (\<exists>pre. list_all link_event pre \<and>
               trace s' = trace s @ pre @
                 [Millis (millis inp), DhtGet (dht_get inp), BaroIsOK False,
                  SerialPrint ''Baro sensor not Found/OK. Error: '',
                  BaroGetError (baro_getError inp),
                  SerialPrintln (print_int (baro_getError inp)), BaroBegin])) \<and>
         (\<forall>inp2 s''. loop P C inp2 s' = Some s'' \<and> unat (millis inp) + 5000 < 2 ^ 32 \<and>
              unat (millis inp2) < unat (millis inp) + 5000 \<longrightarrow>
            next_report_time s'' = millis inp + 5000 \<and>
            (\<exists>pre. list_all link_event pre \<and> trace s'' = trace s' @ pre @ [Millis (millis inp2)]))"
proof (intro conjI)
  show n: "next_report_time s' = millis inp + 5000"
    using loop_timer [OF assms(1)] assms(2) by simp
  show "\<exists>pre s1. list_all link_event pre \<and>
            trace s1 = trace s @ pre @ [Millis (millis inp)] \<and>
            next_report_time s1 = millis inp + 5000 \<and>
            s' = report_baro P C inp (report_dht P C inp s1)"
  proof -
    from loop_closed [OF assms(1)] obtain k m where
      s': "s' = loop_report P C inp ((append_trace (link_events P inp (command_topic s) k) s)\<lparr>msg := m\<rparr>)"
      by (elim exE conjE)
    let ?S = "(append_trace (link_events P inp (command_topic s) k) s)\<lparr>msg := m\<rparr>"
    let ?s1 = "(emit (Millis (millis inp)) ?S)\<lparr>next_report_time := millis inp + 5000\<rparr>"
    have due: "next_report_time ?S \<le> millis inp" using assms(2) by simp
    have a: "s' = report_baro P C inp (report_dht P C inp ?s1)"
      unfolding s' by (rule loop_report_due [OF due])
    have b: "trace ?s1 = trace s @ link_events P inp (command_topic s) k @ [Millis (millis inp)]"
      by simp
    have c: "next_report_time ?s1 = millis inp + 5000" by simp
    from link_events_link [of P inp "command_topic s" k] b c a show ?thesis
      by (intro exI [of _ "link_events P inp (command_topic s) k"] exI [of _ ?s1] conjI)
  qed
  show "dht_get inp \<noteq> 0 \<and> \<not> baro_isOK inp \<longrightarrow>
            (\<exists>pre. list_all link_event pre \<and>
               trace s' = trace s @ pre @
                 [Millis (millis inp), DhtGet (dht_get inp), BaroIsOK False,
                  SerialPrint ''Baro sensor not Found/OK. Error: '',
                  BaroGetError (baro_getError inp),
                  SerialPrintln (print_int (baro_getError inp)), BaroBegin])"
  proof (intro impI, elim conjE)
    assume bad: "dht_get inp \<noteq> 0" "\<not> baro_isOK inp"
    from loop_cycle [OF assms(1)] assms(2) obtain pre where
      pre: "list_all link_event pre" and
      t: "trace s' = trace s @ pre @ Millis (millis inp) # (dht_events P C inp s @ baro_events P C inp s)"
      by (elim exE conjE) simp
    from t bad have "trace s' = trace s @ pre @
                 [Millis (millis inp), DhtGet (dht_get inp), BaroIsOK False,
                  SerialPrint ''Baro sensor not Found/OK. Error: '',
                  BaroGetError (baro_getError inp),
                  SerialPrintln (print_int (baro_getError inp)), BaroBegin]"
      by (simp add: dht_events_def baro_events_def)
    with pre show "\<exists>pre. list_all link_event pre \<and>
               trace s' = trace s @ pre @
                 [Millis (millis inp), DhtGet (dht_get inp), BaroIsOK False,
                  SerialPrint ''Baro sensor not Found/OK. Error: '',
                  BaroGetError (baro_getError inp),
                  SerialPrintln (print_int (baro_getError inp)), BaroBegin]"
      by (intro exI [of _ pre] conjI)
  qed
  show "\<forall>inp2 s''. loop P C inp2 s' = Some s'' \<and> unat (millis inp) + 5000 < 2 ^ 32 \<and>
              unat (millis inp2) < unat (millis inp) + 5000 \<longrightarrow>
            next_report_time s'' = millis inp + 5000 \<and>
            (\<exists>pre. list_all link_event pre \<and> trace s'' = trace s' @ pre @ [Millis (millis inp2)])"
  proof (intro allI impI, elim conjE)
    fix inp2 :: "'a inputs" and s''
    assume l2: "loop P C inp2 s' = Some s''"
      and nowrap: "unat (millis inp) + 5000 < 2 ^ 32"
      and early: "unat (millis inp2) < unat (millis inp) + 5000"
    from nowrap have "unat (next_report_time s') = unat (millis inp) + 5000"
      by (simp add: n unat_plus_5000)
    with early have nd: "\<not> next_report_time s' \<le> millis inp2"
      by (simp add: word_le_nat_alt)
    from loop_timer [OF l2] nd n have "next_report_time s'' = millis inp + 5000" by simp
    with loop_idle [OF l2 nd] show "next_report_time s'' = millis inp + 5000 \<and>
            (\<exists>pre. list_all link_event pre \<and> trace s'' = trace s' @ pre @ [Millis (millis inp2)])"
      by (intro conjI)
  qed
qed

theorem timer_advanced_before_sensors_witness:
  "\<exists>s1 s2. loop bench_platform (sketch_calibration bench_platform)
             ((bench_inputs 0)\<lparr>dht_get := 3, baro_isOK := False, baro_getError := 2\<rparr>) bench_state = Some s1
     \<and> next_report_time bench_state \<le> millis ((bench_inputs 0 :: int inputs)\<lparr>dht_get := 3, baro_isOK := False, baro_getError := 2\<rparr>)
     \<and> next_report_time s1 = 5000
     \<and> loop bench_platform (sketch_calibration bench_platform) (bench_inputs 4999) s1 = Some s2
     \<and> next_report_time s2 = 5000"
proof -
  let ?C = "sketch_calibration bench_platform"
  let ?i1 = "(bench_inputs 0 :: int inputs)\<lparr>dht_get := 3, baro_isOK := False, baro_getError := 2\<rparr>"
  have c: "connected_top ?i1" by (simp add: bench_inputs_def)
  obtain s1 where s1: "loop bench_platform ?C ?i1 bench_state = Some s1"
    using c by (simp add: loop_def Let_def)
  obtain s2 where s2: "loop bench_platform ?C (bench_inputs 4999) s1 = Some s2"
    by (simp add: bench_loop_returns)
  have m1: "millis ?i1 = 0" and m2: "millis (bench_inputs 4999 :: int inputs) = 4999"
    by (simp_all add: bench_inputs_def)
  have due: "next_report_time bench_state \<le> millis ?i1"
    by (simp add: bench_state_def m1)
  note T = timer_advanced_before_sensors [OF s1 due]
  from T have a: "next_report_time s1 = 5000" by (simp add: m1)
  note Q = T [THEN conjunct2, THEN conjunct2, THEN conjunct2, rule_format, of "bench_inputs 4999" s2]
  from Q s2 have b: "next_report_time s2 = 5000" by (simp add: m1 m2)
  from s1 due a s2 b show ?thesis by (intro exI [of _ s1] exI [of _ s2] conjI)
qed

text \<open>
  Claim C10.  The due check of \<^verbatim>\<open>loop()\<close> is the unsigned comparison
  \<^verbatim>\<open>time_now >= next_report_time\<close>, and when it succeeds the next due time is
  \<open>(time_now + 5000) mod 2 ^ 32\<close>.  For every clock value within 5000 ms of \<open>2 ^ 32\<close>
  the new due time wraps to a value below 5000, so every later pass made before the clock
  itself wraps reports again at once: the 5 second spacing is lost around the wrap.
\<close>

theorem timer_wraps_modulo_2_32:
  assumes "loop P C inp s = Some s'"
  shows "(next_report_time s \<le> millis inp) = (unat (next_report_time s) \<le> unat (millis inp)) \<and>
         (if unat (next_report_time s) \<le> unat (millis inp)
          then unat (next_report_time s') = (unat (millis inp) + 5000) mod 2 ^ 32 \<and>
               (\<exists>pre rest. list_all link_event pre \<and>
                  trace s' = trace s @ pre @ Millis (millis inp) # DhtGet (dht_get inp) # rest)
          else next_report_time s' = next_report_time s \<and>
               (\<exists>pre. list_all link_event pre \<and> trace s' = trace s @ pre @ [Millis (millis inp)])) \<and>
         (unat (next_report_time s) \<le> unat (millis inp) \<and> 2 ^ 32 \<le> unat (millis inp) + 5000 \<longrightarrow>
            unat (next_report_time s') = unat (millis inp) + 5000 - 2 ^ 32 \<and>
            unat (next_report_time s') < 5000 \<and>
            (\<forall>inp2 s''. loop P C inp2 s' = Some s'' \<and> unat (millis inp) \<le> unat (millis inp2) \<longrightarrow>
               (\<exists>pre rest. list_all link_event pre \<and>
                  trace s'' = trace s' @ pre @ Millis (millis inp2) # DhtGet (dht_get inp2) # rest)))"
proof (intro conjI)
  show cmp: "(next_report_time s \<le> millis inp) = (unat (next_report_time s) \<le> unat (millis inp))"
    by (rule word_le_nat_alt)
  show "if unat (next_report_time s) \<le> unat (millis inp)
          then unat (next_report_time s') = (unat (millis inp) + 5000) mod 2 ^ 32 \<and>
               (\<exists>pre rest. list_all link_event pre \<and>
                  trace s' = trace s @ pre @ Millis (millis inp) # DhtGet (dht_get inp) # rest)
          else next_report_time s' = next_report_time s \<and>
               (\<exists>pre. list_all link_event pre \<and> trace s' = trace s @ pre @ [Millis (millis inp)])"
  proof (cases "next_report_time s \<le> millis inp")
    case True
    with loop_timer [OF assms] have "next_report_time s' = millis inp + 5000" by simp
    then have "unat (next_report_time s') = (unat (millis inp) + 5000) mod 2 ^ 32"
      by (simp add: unat_plus_5000)
    with loop_fires [OF assms True] True cmp show ?thesis by simp
  next
    case False
    with loop_timer [OF assms] have "next_report_time s' = next_report_time s" by simp
    with loop_idle [OF assms False] False cmp show ?thesis by simp
  qed
  show "unat (next_report_time s) \<le> unat (millis inp) \<and> 2 ^ 32 \<le> unat (millis inp) + 5000 \<longrightarrow>
            unat (next_report_time s') = unat (millis inp) + 5000 - 2 ^ 32 \<and>
            unat (next_report_time s') < 5000 \<and>
            (\<forall>inp2 s''. loop P C inp2 s' = Some s'' \<and> unat (millis inp) \<le> unat (millis inp2) \<longrightarrow>
               (\<exists>pre rest. list_all link_event pre \<and>
                  trace s'' = trace s' @ pre @ Millis (millis inp2) # DhtGet (dht_get inp2) # rest))"
  proof (intro impI, elim conjE)
    assume due: "unat (next_report_time s) \<le> unat (millis inp)"
      and wrap: "2 ^ 32 \<le> unat (millis inp) + 5000"
    from due have "next_report_time s \<le> millis inp" by (simp add: word_le_nat_alt)
    with loop_timer [OF assms] have n: "next_report_time s' = millis inp + 5000" by simp
    have lt: "unat (millis inp) < 2 ^ 32"
      using unsigned_less [of "millis inp"] by simp
    have "(unat (millis inp) + 5000) mod 2 ^ 32 = unat (millis inp) + 5000 - 2 ^ 32"
      using wrap lt by (simp add: mod_if)
    with n have v: "unat (next_report_time s') = unat (millis inp) + 5000 - 2 ^ 32"
      by (simp add: unat_plus_5000)
    from v lt have small: "unat (next_report_time s') < 5000" by simp
    have again: "\<forall>inp2 s''. loop P C inp2 s' = Some s'' \<and> unat (millis inp) \<le> unat (millis inp2) \<longrightarrow>
               (\<exists>pre rest. list_all link_event pre \<and>
                  trace s'' = trace s' @ pre @ Millis (millis inp2) # DhtGet (dht_get inp2) # rest)"
    proof (intro allI impI, elim conjE)
      fix inp2 :: "'a inputs" and s''
      assume l2: "loop P C inp2 s' = Some s''" and later: "unat (millis inp) \<le> unat (millis inp2)"
      from v wrap later lt have "unat (next_report_time s') \<le> unat (millis inp2)" by simp
      then have "next_report_time s' \<le> millis inp2" by (simp add: word_le_nat_alt)
      from loop_fires [OF l2 this] show "\<exists>pre rest. list_all link_event pre \<and>
                  trace s'' = trace s' @ pre @ Millis (millis inp2) # DhtGet (dht_get inp2) # rest" .
    qed
    from v small again show "unat (next_report_time s') = unat (millis inp) + 5000 - 2 ^ 32 \<and>
            unat (next_report_time s') < 5000 \<and>
            (\<forall>inp2 s''. loop P C inp2 s' = Some s'' \<and> unat (millis inp) \<le> unat (millis inp2) \<longrightarrow>
               (\<exists>pre rest. list_all link_event pre \<and>
                  trace s'' = trace s' @ pre @ Millis (millis inp2) # DhtGet (dht_get inp2) # rest))"
      by (intro conjI)
  qed
qed

theorem timer_wraps_modulo_2_32_witness:
  "\<exists>s1 s2. loop bench_platform (sketch_calibration bench_platform) (bench_inputs 4294967000) bench_state = Some s1
     \<and> unat (next_report_time s1) = 4704
     \<and> loop bench_platform (sketch_calibration bench_platform) (bench_inputs 4294967001) s1 = Some s2
     \<and> unat (next_report_time s2) = 4705"
proof -
  let ?C = "sketch_calibration bench_platform"
  obtain s1 where s1: "loop bench_platform ?C (bench_inputs 4294967000) bench_state = Some s1"
    by (simp add: bench_loop_returns)
  obtain s2 where s2: "loop bench_platform ?C (bench_inputs 4294967001) s1 = Some s2"
    by (simp add: bench_loop_returns)
  have m1: "millis (bench_inputs 4294967000 :: int inputs) = 4294967000"
    and m2: "millis (bench_inputs 4294967001 :: int inputs) = 4294967001"
    by (simp_all add: bench_inputs_def)
  have n0: "next_report_time bench_state = 0" by (simp add: bench_state_def)
  from timer_wraps_modulo_2_32 [OF s1] have a: "unat (next_report_time s1) = 4704"
    by (simp add: m1 n0)
  from timer_wraps_modulo_2_32 [OF s2] a have b: "unat (next_report_time s2) = 4705"
    by (simp add: m2)
  from s1 s2 a b show ?thesis by (intro exI [of _ s1] exI [of _ s2] conjI)
qed

section \<open>The report cycle\<close>

text \<open>
  Claim C2.  For every choice of the four calibration offsets and for all answers of the
  sensors, a pass of \<^verbatim>\<open>loop()\<close> that is due adds to the trace, after the events of
  the connection handling and the reading of the clock, exactly the events below: the
  payload published on each channel is the text that \<^verbatim>\<open>dtostrf\<close> gives, with precision
  2, for the raw reading of that channel plus the offset of that channel (width 4 for
  temperature, humidity and temperature2, width 6 for pressure).
\<close>

theorem published_value_is_reading_plus_offset:
  assumes "loop P C inp s = Some s'" and "next_report_time s \<le> millis inp"
  shows "\<exists>pre. list_all link_event pre \<and>
           trace s' = trace s @ pre @ [Millis (millis inp)] @
             (if dht_get inp = 0
              then [DhtGet 0,
                    SerialPrint ''Temperature:  '',
                    SerialPrintln (print_float P (fadd P (dht_cTemp inp) (temperature_adjustment C))),
                    ClientPublish (temperature_topic s)
                      (dtostrf P (fadd P (dht_cTemp inp) (temperature_adjustment C)) 4 2),
                    SerialPrint ''Humidity:     '',
                    SerialPrintln (print_float P (fadd P (dht_humidity inp) (humidity_adjustment C))),
                    ClientPublish (humidity_topic s)
                      (dtostrf P (fadd P (dht_humidity inp) (humidity_adjustment C)) 4 2)]
              else [DhtGet (dht_get inp)]) @
             (if baro_isOK inp
              then [BaroIsOK True,
                    SerialPrint ''Pressure:     '',
                    BaroGetPressure (baro_getPressure inp),
                    SerialPrintln (print_float P (fadd P (baro_getPressure inp) (pressure_adjustment C))),
                    ClientPublish (pressure_topic s)
                      (dtostrf P (fadd P (baro_getPressure inp) (pressure_adjustment C)) 6 2),
                    SerialPrint ''Temperature2: '',
                    BaroGetTemperature (baro_getTemperature inp),
                    SerialPrintln (print_float P (fadd P (baro_getTemperature inp) (temperature_2_adjustment C))),
                    ClientPublish (temperature_2_topic s)
                      (dtostrf P (fadd P (baro_getTemperature inp) (temperature_2_adjustment C)) 4 2)]
              else [BaroIsOK False,
                    SerialPrint ''Baro sensor not Found/OK. Error: '',
                    BaroGetError (baro_getError inp),
                    SerialPrintln (print_int (baro_getError inp)),
                    BaroBegin])"
proof -
  from loop_cycle [OF assms(1)] assms(2) obtain pre where
    pre: "list_all link_event pre" and
    t: "trace s' = trace s @ pre @ Millis (millis inp) # (dht_events P C inp s @ baro_events P C inp s)"
    by (elim exE conjE) simp
  from t have "trace s' = trace s @ pre @ [Millis (millis inp)] @
                 dht_events P C inp s @ baro_events P C inp s"
    by simp
  with pre show ?thesis
    unfolding dht_events_def baro_events_def by (intro exI [of _ pre] conjI)
qed

theorem published_value_is_reading_plus_offset_witness:
  "\<exists>s1. loop bench_platform \<lparr>humidity_adjustment = 150, temperature_adjustment = - 300,
            pressure_adjustment = 25, temperature_2_adjustment = - 275\<rparr> (bench_inputs 0) bench_state = Some s1
     \<and> next_report_time bench_state \<le> millis (bench_inputs 0 :: int inputs)
     \<and> trace s1 =
         [ClientConnected True, ClientLoop, Millis 0, DhtGet 0,
          SerialPrint ''Temperature:  '', SerialPrintln ''23.50'',
          ClientPublish ''device/a1b2/temperature'' ''23.50'',
          SerialPrint ''Humidity:     '', SerialPrintln ''41.70'',
          ClientPublish ''device/a1b2/humidity'' ''41.70'', BaroIsOK True,
          SerialPrint ''Pressure:     '', BaroGetPressure 101325,
          SerialPrintln ''1013.50'',
          ClientPublish ''device/a1b2/pressure'' ''1013.50'',
          SerialPrint ''Temperature2: '', BaroGetTemperature 2710,
          SerialPrintln ''24.35'',
          ClientPublish ''device/a1b2/temperature2'' ''24.35'']"
proof -
  let ?C = "\<lparr>humidity_adjustment = 150, temperature_adjustment = - 300,
            pressure_adjustment = 25, temperature_2_adjustment = - 275 :: int\<rparr>"
  obtain s1 where s1: "loop bench_platform ?C (bench_inputs 0) bench_state = Some s1"
    by (simp add: bench_loop_returns)
  have due: "next_report_time bench_state \<le> millis (bench_inputs 0 :: int inputs)"
    by (simp add: bench_state_def)
  from loop_trace [OF s1] have pre: "\<exists>k. trace s1 = trace bench_state @
        link_events bench_platform (bench_inputs 0) (command_topic bench_state) k @
        Millis (millis (bench_inputs 0 :: int inputs)) #
          (if next_report_time bench_state \<le> millis (bench_inputs 0 :: int inputs)
           then dht_events bench_platform ?C (bench_inputs 0) bench_state @
                baro_events bench_platform ?C (bench_inputs 0) bench_state else [])"
    by (elim exE conjE) (rule exI)
  note T = published_value_is_reading_plus_offset [OF s1 due]
  have "trace s1 =
         [ClientConnected True, ClientLoop, Millis 0, DhtGet 0,
          SerialPrint ''Temperature:  '', SerialPrintln ''23.50'',
          ClientPublish ''device/a1b2/temperature'' ''23.50'',
          SerialPrint ''Humidity:     '', SerialPrintln ''41.70'',
          ClientPublish ''device/a1b2/humidity'' ''41.70'', BaroIsOK True,
          SerialPrint ''Pressure:     '', BaroGetPressure 101325,
          SerialPrintln ''1013.50'',
          ClientPublish ''device/a1b2/pressure'' ''1013.50'',
          SerialPrint ''Temperature2: '', BaroGetTemperature 2710,
          SerialPrintln ''24.35'',
          ClientPublish ''device/a1b2/temperature2'' ''24.35'']"
    using pre T
    by (simp add: link_events_def dht_events_def baro_events_def bench_inputs_def bench_state_def
        bench_platform_def bench_dtostrf_def print_int_def digit_char_def Let_def)
  with s1 due show ?thesis by (intro exI [of _ s1] conjI)
qed

text \<open>
  Claim C3.  In a report cycle in which \<^verbatim>\<open>dht12.get()\<close> answers a nonzero status,
  the reader is called once and nothing is published for temperature and humidity: the
  cycle consists of that one call followed by the events \<open>B\<close> of the pressure sensor.
  With the same answers, except that \<^verbatim>\<open>dht12.get()\<close> succeeds, the pass ends with the
  very same events \<open>B\<close>: the pressure and temperature2 channels are read, adjusted and
  published (or the sensor reinitialised) exactly as they would be otherwise.
\<close>

theorem dht_failure_skips_only_its_channels:
  assumes "loop P C inp s = Some s'" and "next_report_time s \<le> millis inp" and "dht_get inp \<noteq> 0"
  shows "\<exists>pre B s''. list_all link_event pre \<and>
           B = (if baro_isOK inp
                then [BaroIsOK True,
                      SerialPrint ''Pressure:     '',
                      BaroGetPressure (baro_getPressure inp),
                      SerialPrintln (print_float P (fadd P (baro_getPressure inp) (pressure_adjustment C))),
                      ClientPublish (pressure_topic s)
                        (dtostrf P (fadd P (baro_getPressure inp) (pressure_adjustment C)) 6 2),
                      SerialPrint ''Temperature2: '',
                      BaroGetTemperature (baro_getTemperature inp),
                      SerialPrintln (print_float P (fadd P (baro_getTemperature inp) (temperature_2_adjustment C))),
                      ClientPublish (temperature_2_topic s)
                        (dtostrf P (fadd P (baro_getTemperature inp) (temperature_2_adjustment C)) 4 2)]
                else [BaroIsOK False,
                      SerialPrint ''Baro sensor not Found/OK. Error: '',
                      BaroGetError (baro_getError inp),
                      SerialPrintln (print_int (baro_getError inp)),
                      BaroBegin]) \<and>
           trace s' = trace s @ pre @ [Millis (millis inp), DhtGet (dht_get inp)] @ B \<and>
           loop P C (inp\<lparr>dht_get := 0\<rparr>) s = Some s'' \<and>
           trace s'' = trace s @ pre @
             [Millis (millis inp), DhtGet 0,
              SerialPrint ''Temperature:  '',
              SerialPrintln (print_float P (fadd P (dht_cTemp inp) (temperature_adjustment C))),
              ClientPublish (temperature_topic s)
                (dtostrf P (fadd P (dht_cTemp inp) (temperature_adjustment C)) 4 2),
              SerialPrint ''Humidity:     '',
              SerialPrintln (print_float P (fadd P (dht_humidity inp) (humidity_adjustment C))),
              ClientPublish (humidity_topic s)
                (dtostrf P (fadd P (dht_humidity inp) (humidity_adjustment C)) 4 2)] @ B"
proof -
  let ?inp' = "inp\<lparr>dht_get := 0\<rparr>"
  have "\<exists>k m. s' = loop_report P C inp
                      ((append_trace (link_events P inp (command_topic s) k) s)\<lparr>msg := m\<rparr>) \<and>
               loop P C ?inp' s = Some (loop_report P C ?inp'
                      ((append_trace (link_events P inp (command_topic s) k) s)\<lparr>msg := m\<rparr>))"
    by (rule loop_same_link [OF assms(1)]) simp_all
  then obtain k m where
    s': "s' = loop_report P C inp
               ((append_trace (link_events P inp (command_topic s) k) s)\<lparr>msg := m\<rparr>)" and
    l': "loop P C ?inp' s = Some (loop_report P C ?inp'
               ((append_trace (link_events P inp (command_topic s) k) s)\<lparr>msg := m\<rparr>))"
    by (elim exE conjE)
  let ?pre = "link_events P inp (command_topic s) k"
  let ?S = "(append_trace ?pre s)\<lparr>msg := m\<rparr>"
  let ?B = "baro_events P C inp s"
  have t: "trace s' = trace s @ ?pre @ [Millis (millis inp), DhtGet (dht_get inp)] @ ?B"
    unfolding s' using assms(2,3) by (simp add: loop_report_trace dht_events_def)
  have b': "baro_events P C ?inp' s = ?B"
    by (simp add: baro_events_def)
  have t': "trace (loop_report P C ?inp' ?S) = trace s @ ?pre @
             [Millis (millis inp), DhtGet 0,
              SerialPrint ''Temperature:  '',
              SerialPrintln (print_float P (fadd P (dht_cTemp inp) (temperature_adjustment C))),
              ClientPublish (temperature_topic s)
                (dtostrf P (fadd P (dht_cTemp inp) (temperature_adjustment C)) 4 2),
              SerialPrint ''Humidity:     '',
              SerialPrintln (print_float P (fadd P (dht_humidity inp) (humidity_adjustment C))),
              ClientPublish (humidity_topic s)
                (dtostrf P (fadd P (dht_humidity inp) (humidity_adjustment C)) 4 2)] @ ?B"
    using assms(2) by (simp add: loop_report_trace b' dht_events_def)
  have B: "?B = (if baro_isOK inp
                then [BaroIsOK True,
                      SerialPrint ''Pressure:     '',
                      BaroGetPressure (baro_getPressure inp),
                      SerialPrintln (print_float P (fadd P (baro_getPressure inp) (pressure_adjustment C))),
                      ClientPublish (pressure_topic s)
                        (dtostrf P (fadd P (baro_getPressure inp) (pressure_adjustment C)) 6 2),
                      SerialPrint ''Temperature2: '',
                      BaroGetTemperature (baro_getTemperature inp),
                      SerialPrintln (print_float P (fadd P (baro_getTemperature inp) (temperature_2_adjustment C))),
                      ClientPublish (temperature_2_topic s)
                        (dtostrf P (fadd P (baro_getTemperature inp) (temperature_2_adjustment C)) 4 2)]
                else [BaroIsOK False,
                      SerialPrint ''Baro sensor not Found/OK. Error: '',
                      BaroGetError (baro_getError inp),
                      SerialPrintln (print_int (baro_getError inp)),
                      BaroBegin])"
    by (simp add: baro_events_def)
  from link_events_link [of P inp "command_topic s" k] B t l' t' show ?thesis
    by (intro exI [of _ ?pre] exI [of _ ?B] exI [of _ "loop_report P C ?inp' ?S"] conjI)
qed

theorem dht_failure_skips_only_its_channels_witness:
  "\<exists>s1 s2. loop bench_platform (sketch_calibration bench_platform)
             ((bench_inputs 0)\<lparr>dht_get := 3\<rparr>) bench_state = Some s1
     \<and> next_report_time bench_state \<le> millis ((bench_inputs 0 :: int inputs)\<lparr>dht_get := 3\<rparr>)
     \<and> dht_get ((bench_inputs 0 :: int inputs)\<lparr>dht_get := 3\<rparr>) \<noteq> 0
     \<and> trace s1 =
         [ClientConnected True, ClientLoop, Millis 0, DhtGet 3, BaroIsOK True,
          SerialPrint ''Pressure:     '', BaroGetPressure 101325,
          SerialPrintln ''1013.25'',
          ClientPublish ''device/a1b2/pressure'' ''1013.25'',
          SerialPrint ''Temperature2: '', BaroGetTemperature 2710,
          SerialPrintln ''24.10'',
          ClientPublish ''device/a1b2/temperature2'' ''24.10'']
     \<and> loop bench_platform (sketch_calibration bench_platform)
             ((bench_inputs 0)\<lparr>dht_get := 3\<rparr>\<lparr>dht_get := 0\<rparr>) bench_state = Some s2"
proof -
  let ?C = "sketch_calibration bench_platform"
  let ?i = "(bench_inputs 0 :: int inputs)\<lparr>dht_get := 3\<rparr>"
  have c: "connected_top ?i" by (simp add: bench_inputs_def)
  obtain s1 where s1: "loop bench_platform ?C ?i bench_state = Some s1"
    using c by (simp add: loop_def Let_def)
  have due: "next_report_time bench_state \<le> millis ?i"
    by (simp add: bench_state_def)
  have bad: "dht_get ?i \<noteq> 0" by simp
  note T = dht_failure_skips_only_its_channels [OF s1 due bad]
  from T obtain s2 where s2: "loop bench_platform ?C (?i\<lparr>dht_get := 0\<rparr>) bench_state = Some s2"
    by (elim exE conjE)
  from loop_trace [OF s1] have pre: "\<exists>k. trace s1 = trace bench_state @
        link_events bench_platform ?i (command_topic bench_state) k @
        Millis (millis ?i) #
          (if next_report_time bench_state \<le> millis ?i
           then dht_events bench_platform ?C ?i bench_state @
                baro_events bench_platform ?C ?i bench_state else [])"
    by (elim exE conjE) (rule exI)
  have "trace s1 =
         [ClientConnected True, ClientLoop, Millis 0, DhtGet 3, BaroIsOK True,
          SerialPrint ''Pressure:     '', BaroGetPressure 101325,
          SerialPrintln ''1013.25'',
          ClientPublish ''device/a1b2/pressure'' ''1013.25'',
          SerialPrint ''Temperature2: '', BaroGetTemperature 2710,
          SerialPrintln ''24.10'',
          ClientPublish ''device/a1b2/temperature2'' ''24.10'']"
    using pre
    by (simp add: link_events_def dht_events_def baro_events_def bench_inputs_def bench_state_def
        bench_platform_def sketch_calibration_def bench_dtostrf_def print_int_def digit_char_def Let_def)
  with s1 due bad s2 show ?thesis by (intro exI [of _ s1] exI [of _ s2] conjI)
qed

text \<open>
  Claim C4.  In a report cycle in which \<^verbatim>\<open>BaroSensor.isOK()\<close> answers false, the
  error code is printed, \<^verbatim>\<open>BaroSensor.begin()\<close> is called exactly once, and the pass
  publishes on no topic other than \<open>events\<close> and the two topics of the DHT12 (after
  \<^verbatim>\<open>setup()\<close> these differ from the pressure and temperature2 topics).  In any later
  report cycle, after any number of passes, in which the sensor answers that it is
  healthy, pressure and temperature2 are read, adjusted and published.
  \<open>dht_events\<close> stands for what the DHT12 block adds to the trace.
\<close>

theorem baro_unhealthy_reinitialises_then_recovers:
  assumes "loop P C inp s = Some s'" and "next_report_time s \<le> millis inp" and "\<not> baro_isOK inp"
    and "run P C inps s' = Some s2" and "loop P C inp2 s2 = Some s3"
    and "next_report_time s2 \<le> millis inp2" and "baro_isOK inp2"
  shows "(\<exists>pre. list_all link_event pre \<and>
            trace s' = trace s @ pre @ [Millis (millis inp)] @ dht_events P C inp s @
              [BaroIsOK False,
               SerialPrint ''Baro sensor not Found/OK. Error: '',
               BaroGetError (baro_getError inp),
               SerialPrintln (print_int (baro_getError inp)),
               BaroBegin]) \<and>
         count_list (new_events s s') BaroBegin = 1 \<and>
         fst ` set (publications (new_events s s')) \<subseteq> {''events'', temperature_topic s, humidity_topic s} \<and>
         (\<exists>pre. list_all link_event pre \<and>
            trace s3 = trace s2 @ pre @ [Millis (millis inp2)] @ dht_events P C inp2 s @
              [BaroIsOK True,
               SerialPrint ''Pressure:     '',
               BaroGetPressure (baro_getPressure inp2),
               SerialPrintln (print_float P (fadd P (baro_getPressure inp2) (pressure_adjustment C))),
               ClientPublish (pressure_topic s)
                 (dtostrf P (fadd P (baro_getPressure inp2) (pressure_adjustment C)) 6 2),
               SerialPrint ''Temperature2: '',
               BaroGetTemperature (baro_getTemperature inp2),
               SerialPrintln (print_float P (fadd P (baro_getTemperature inp2) (temperature_2_adjustment C))),
               ClientPublish (temperature_2_topic s)
                 (dtostrf P (fadd P (baro_getTemperature inp2) (temperature_2_adjustment C)) 4 2)])"
proof -
  from loop_cycle [OF assms(1)] assms(2) obtain pre where
    pre: "list_all link_event pre" and
    t: "trace s' = trace s @ pre @ Millis (millis inp) # (dht_events P C inp s @ baro_events P C inp s)"
    by (elim exE conjE) simp
  let ?R = "[BaroIsOK False,
               SerialPrint ''Baro sensor not Found/OK. Error: '',
               BaroGetError (baro_getError inp),
               SerialPrintln (print_int (baro_getError inp)),
               BaroBegin]"
  from t assms(3) have t1: "trace s' = trace s @ pre @ [Millis (millis inp)] @ dht_events P C inp s @ ?R"
    by (simp add: baro_events_def)
  then have n: "new_events s s' = pre @ [Millis (millis inp)] @ dht_events P C inp s @ ?R"
    by (rule new_events_append)
  have c: "count_list (new_events s s') BaroBegin = 1"
    unfolding n by (simp add: count_baro_begin_link [OF pre] dht_events_def)
  have p: "fst ` set (publications (new_events s s')) \<subseteq> {''events'', temperature_topic s, humidity_topic s}"
    unfolding n using publications_link [OF pre] publications_dht_events [of P C inp s]
    by (auto simp: publications_append)
  have first: "\<exists>pre. list_all link_event pre \<and>
            trace s' = trace s @ pre @ [Millis (millis inp)] @ dht_events P C inp s @ ?R"
    using pre t1 by (intro exI [of _ pre] conjI)
  have topics: "topic_set s2 = topic_set s"
    using run_topics [OF assms(4)] loop_topics [OF assms(1)] by simp
  from loop_cycle [OF assms(5)] assms(6) obtain pre2 where
    pre2: "list_all link_event pre2" and
    t2: "trace s3 = trace s2 @ pre2 @ Millis (millis inp2) #
           (dht_events P C inp2 s2 @ baro_events P C inp2 s2)"
    by (elim exE conjE) simp
  have d2: "dht_events P C inp2 s2 = dht_events P C inp2 s"
    by (rule dht_events_cong [OF topics])
  have b2: "baro_events P C inp2 s2 = baro_events P C inp2 s"
    by (rule baro_events_cong [OF topics])
  from t2 assms(7) have t3: "trace s3 = trace s2 @ pre2 @ [Millis (millis inp2)] @ dht_events P C inp2 s @
              [BaroIsOK True,
               SerialPrint ''Pressure:     '',
               BaroGetPressure (baro_getPressure inp2),
               SerialPrintln (print_float P (fadd P (baro_getPressure inp2) (pressure_adjustment C))),
               ClientPublish (pressure_topic s)
                 (dtostrf P (fadd P (baro_getPressure inp2) (pressure_adjustment C)) 6 2),
               SerialPrint ''Temperature2: '',
               BaroGetTemperature (baro_getTemperature inp2),
               SerialPrintln (print_float P (fadd P (baro_getTemperature inp2) (temperature_2_adjustment C))),
               ClientPublish (temperature_2_topic s)
                 (dtostrf P (fadd P (baro_getTemperature inp2) (temperature_2_adjustment C)) 4 2)]"
    unfolding d2 b2 by (simp add: baro_events_def)
  have later: "\<exists>pre. list_all link_event pre \<and>
            trace s3 = trace s2 @ pre @ [Millis (millis inp2)] @ dht_events P C inp2 s @
              [BaroIsOK True,
               SerialPrint ''Pressure:     '',
               BaroGetPressure (baro_getPressure inp2),
               SerialPrintln (print_float P (fadd P (baro_getPressure inp2) (pressure_adjustment C))),
               ClientPublish (pressure_topic s)
                 (dtostrf P (fadd P (baro_getPressure inp2) (pressure_adjustment C)) 6 2),
               SerialPrint ''Temperature2: '',
               BaroGetTemperature (baro_getTemperature inp2),
               SerialPrintln (print_float P (fadd P (baro_getTemperature inp2) (temperature_2_adjustment C))),
               ClientPublish (temperature_2_topic s)
                 (dtostrf P (fadd P (baro_getTemperature inp2) (temperature_2_adjustment C)) 4 2)]"
    using pre2 t3 by (intro exI [of _ pre2] conjI)
  from first c p later show ?thesis by (intro conjI)
qed

theorem baro_unhealthy_reinitialises_then_recovers_witness:
  "\<exists>s1 s2 s3.
       loop bench_platform (sketch_calibration bench_platform)
         ((bench_inputs 0)\<lparr>baro_isOK := False, baro_getError := 2\<rparr>) bench_state = Some s1
     \<and> next_report_time bench_state \<le> millis ((bench_inputs 0 :: int inputs)\<lparr>baro_isOK := False, baro_getError := 2\<rparr>)
     \<and> \<not> baro_isOK ((bench_inputs 0 :: int inputs)\<lparr>baro_isOK := False, baro_getError := 2\<rparr>)
     \<and> run bench_platform (sketch_calibration bench_platform) [bench_inputs 2500] s1 = Some s2
     \<and> loop bench_platform (sketch_calibration bench_platform) (bench_inputs 5000) s2 = Some s3
     \<and> next_report_time s2 \<le> millis (bench_inputs 5000 :: int inputs)
     \<and> baro_isOK (bench_inputs 5000 :: int inputs)
     \<and> count_list (new_events bench_state s1) BaroBegin = 1
     \<and> publications (new_events s2 s3) =
           [(''device/a1b2/temperature'', ''23.50''), (''device/a1b2/humidity'', ''40.20''),
            (''device/a1b2/pressure'', ''1013.25''), (''device/a1b2/temperature2'', ''24.10'')]"
proof -
  let ?C = "sketch_calibration bench_platform"
  let ?i = "(bench_inputs 0 :: int inputs)\<lparr>baro_isOK := False, baro_getError := 2\<rparr>"
  have c: "connected_top ?i" by (simp add: bench_inputs_def)
  obtain s1 where s1: "loop bench_platform ?C ?i bench_state = Some s1"
    using c by (simp add: loop_def Let_def)
  obtain s2 where l2: "loop bench_platform ?C (bench_inputs 2500) s1 = Some s2"
    by (simp add: bench_loop_returns)
  then have s2: "run bench_platform ?C [bench_inputs 2500] s1 = Some s2" by simp
  obtain s3 where s3: "loop bench_platform ?C (bench_inputs 5000) s2 = Some s3"
    by (simp add: bench_loop_returns)
  have m: "millis ?i = 0" "millis (bench_inputs 2500 :: int inputs) = 2500"
    "millis (bench_inputs 5000 :: int inputs) = 5000"
    by (simp_all add: bench_inputs_def)
  have due: "next_report_time bench_state \<le> millis ?i"
    by (simp add: bench_state_def)
  have bad: "\<not> baro_isOK ?i" by simp
  have n1: "next_report_time s1 = 5000"
    using loop_timer [OF s1] due by (simp add: m)
  have n2: "next_report_time s2 = 5000"
    using loop_timer [OF l2] by (simp add: m n1)
  have due2: "next_report_time s2 \<le> millis (bench_inputs 5000 :: int inputs)"
    by (simp add: n2 m)
  have ok: "baro_isOK (bench_inputs 5000 :: int inputs)" by (simp add: bench_inputs_def)
  note T = baro_unhealthy_reinitialises_then_recovers [OF s1 due bad s2 s3 due2 ok]
  from T have a: "count_list (new_events bench_state s1) BaroBegin = 1" by (elim conjE)
  have ts: "topic_set s2 = topic_set bench_state"
    using loop_topics [OF s1] loop_topics [OF l2] by simp
  from loop_trace [OF s3] obtain k where
    "trace s3 = trace s2 @ link_events bench_platform (bench_inputs 5000) (command_topic s2) k @
       Millis (millis (bench_inputs 5000 :: int inputs)) #
          (if next_report_time s2 \<le> millis (bench_inputs 5000 :: int inputs)
           then dht_events bench_platform ?C (bench_inputs 5000) s2 @
                baro_events bench_platform ?C (bench_inputs 5000) s2 else [])"
    by (elim exE conjE)
  with due2 have "new_events s2 s3 =
       link_events bench_platform (bench_inputs 5000) (command_topic s2) k @
       Millis (millis (bench_inputs 5000 :: int inputs)) #
         (dht_events bench_platform ?C (bench_inputs 5000) bench_state @
          baro_events bench_platform ?C (bench_inputs 5000) bench_state)"
    by (simp add: new_events_def dht_events_cong [OF ts] baro_events_cong [OF ts])
  then have b: "publications (new_events s2 s3) =
           [(''device/a1b2/temperature'', ''23.50''), (''device/a1b2/humidity'', ''40.20''),
            (''device/a1b2/pressure'', ''1013.25''), (''device/a1b2/temperature2'', ''24.10'')]"
    by (simp add: publications_append link_events_def dht_events_def baro_events_def
        bench_inputs_def bench_state_def bench_platform_def sketch_calibration_def
        bench_dtostrf_def digit_char_def Let_def)
  from s1 due bad s2 s3 due2 ok a b show ?thesis
    by (intro exI [of _ s1] exI [of _ s2] exI [of _ s3] conjI)
qed

text \<open>
  Claim C8.  In a report cycle the publications that occur come in the order temperature,
  humidity, pressure, temperature2.  Every one of them goes through the shared buffer
  \<^verbatim>\<open>msg\<close>, and its payload is the value formatted for that channel in this very cycle,
  whatever the buffer held before; after the cycle the buffer holds the payload published
  last.
\<close>

theorem publications_in_fixed_order:
  assumes "loop P C inp s = Some s'" and "next_report_time s \<le> millis inp"
  shows "\<exists>pre cyc. list_all link_event pre \<and>
           trace s' = trace s @ pre @ Millis (millis inp) # cyc \<and>
           publications cyc =
             (if dht_get inp = 0
              then [(temperature_topic s,
                       dtostrf P (fadd P (dht_cTemp inp) (temperature_adjustment C)) 4 2),
                    (humidity_topic s,
                       dtostrf P (fadd P (dht_humidity inp) (humidity_adjustment C)) 4 2)]
              else []) @
             (if baro_isOK inp
              then [(pressure_topic s,
                       dtostrf P (fadd P (baro_getPressure inp) (pressure_adjustment C)) 6 2),
                    (temperature_2_topic s,
                       dtostrf P (fadd P (baro_getTemperature inp) (temperature_2_adjustment C)) 4 2)]
              else []) \<and>
           (publications cyc \<noteq> [] \<longrightarrow> msg s' = snd (last (publications cyc)))"
proof -
  from loop_closed [OF assms(1)] obtain k m where
    s': "s' = loop_report P C inp ((append_trace (link_events P inp (command_topic s) k) s)\<lparr>msg := m\<rparr>)"
    by (elim exE conjE)
  let ?pre = "link_events P inp (command_topic s) k"
  let ?S = "(append_trace ?pre s)\<lparr>msg := m\<rparr>"
  let ?cyc = "dht_events P C inp s @ baro_events P C inp s"
  have due: "next_report_time ?S \<le> millis inp" using assms(2) by simp
  have t: "trace s' = trace s @ ?pre @ Millis (millis inp) # ?cyc"
    unfolding s' using assms(2) by (simp add: loop_report_trace)
  have p: "publications ?cyc =
             (if dht_get inp = 0
              then [(temperature_topic s,
                       dtostrf P (fadd P (dht_cTemp inp) (temperature_adjustment C)) 4 2),
                    (humidity_topic s,
                       dtostrf P (fadd P (dht_humidity inp) (humidity_adjustment C)) 4 2)]
              else []) @
             (if baro_isOK inp
              then [(pressure_topic s,
                       dtostrf P (fadd P (baro_getPressure inp) (pressure_adjustment C)) 6 2),
                    (temperature_2_topic s,
                       dtostrf P (fadd P (baro_getTemperature inp) (temperature_2_adjustment C)) 4 2)]
              else [])"
    by (simp add: publications_append dht_events_def baro_events_def)
  have b: "publications ?cyc \<noteq> [] \<longrightarrow> msg s' = snd (last (publications ?cyc))"
    unfolding p s' loop_report_due [OF due]
    by (simp add: report_baro_msg report_dht_msg)
  from link_events_link [of P inp "command_topic s" k] t p b show ?thesis
    by (intro exI [of _ ?pre] exI [of _ ?cyc] conjI)
qed

theorem publications_in_fixed_order_witness:
  "\<exists>s1. loop bench_platform (sketch_calibration bench_platform) (bench_inputs 0)
           (bench_state\<lparr>msg := ''stale''\<rparr>) = Some s1
     \<and> next_report_time (bench_state\<lparr>msg := ''stale''\<rparr>) \<le> millis (bench_inputs 0 :: int inputs)
     \<and> publications (trace s1) =
           [(''device/a1b2/temperature'', ''23.50''), (''device/a1b2/humidity'', ''40.20''),
            (''device/a1b2/pressure'', ''1013.25''), (''device/a1b2/temperature2'', ''24.10'')]
     \<and> msg s1 = ''24.10''"
proof -
  let ?C = "sketch_calibration bench_platform"
  let ?s0 = "bench_state\<lparr>msg := ''stale''\<rparr>"
  obtain s1 where s1: "loop bench_platform ?C (bench_inputs 0) ?s0 = Some s1"
    by (simp add: bench_loop_returns)
  have due: "next_report_time ?s0 \<le> millis (bench_inputs 0 :: int inputs)"
    by (simp add: bench_state_def)
  from publications_in_fixed_order [OF s1 due] obtain pre cyc where
    pre: "list_all link_event pre" and
    t: "trace s1 = trace ?s0 @ pre @ Millis (millis (bench_inputs 0 :: int inputs)) # cyc" and
    p: "publications cyc =
             (if dht_get (bench_inputs 0 :: int inputs) = 0
              then [(temperature_topic ?s0,
                       dtostrf bench_platform (fadd bench_platform (dht_cTemp (bench_inputs 0)) (temperature_adjustment ?C)) 4 2),
                    (humidity_topic ?s0,
                       dtostrf bench_platform (fadd bench_platform (dht_humidity (bench_inputs 0)) (humidity_adjustment ?C)) 4 2)]
              else []) @
             (if baro_isOK (bench_inputs 0 :: int inputs)
              then [(pressure_topic ?s0,
                       dtostrf bench_platform (fadd bench_platform (baro_getPressure (bench_inputs 0)) (pressure_adjustment ?C)) 6 2),
                    (temperature_2_topic ?s0,
                       dtostrf bench_platform (fadd bench_platform (baro_getTemperature (bench_inputs 0)) (temperature_2_adjustment ?C)) 4 2)]
              else [])" and
    m: "publications cyc \<noteq> [] \<longrightarrow> msg s1 = snd (last (publications cyc))"
    by (elim exE conjE)
  have p': "publications cyc =
           [(''device/a1b2/temperature'', ''23.50''), (''device/a1b2/humidity'', ''40.20''),
            (''device/a1b2/pressure'', ''1013.25''), (''device/a1b2/temperature2'', ''24.10'')]"
    unfolding p
    by (simp add: bench_inputs_def bench_state_def bench_platform_def sketch_calibration_def
        bench_dtostrf_def digit_char_def Let_def)
  from loop_trace [OF s1] obtain k where
    "trace s1 = trace ?s0 @ link_events bench_platform (bench_inputs 0) (command_topic ?s0) k @
        Millis (millis (bench_inputs 0 :: int inputs)) #
          (if next_report_time ?s0 \<le> millis (bench_inputs 0 :: int inputs)
           then dht_events bench_platform ?C (bench_inputs 0) ?s0 @
                baro_events bench_platform ?C (bench_inputs 0) ?s0 else [])"
    by (elim exE conjE)
  then have "publications (trace s1) = publications (dht_events bench_platform ?C (bench_inputs 0) ?s0 @
                baro_events bench_platform ?C (bench_inputs 0) ?s0)"
    using due by (simp add: publications_append link_events_def bench_inputs_def bench_state_def)
  also have "\<dots> = [(''device/a1b2/temperature'', ''23.50''), (''device/a1b2/humidity'', ''40.20''),
            (''device/a1b2/pressure'', ''1013.25''), (''device/a1b2/temperature2'', ''24.10'')]"
    by (simp add: publications_append dht_events_def baro_events_def bench_inputs_def bench_state_def
        bench_platform_def sketch_calibration_def bench_dtostrf_def digit_char_def Let_def)
  finally have a: "publications (trace s1) =
           [(''device/a1b2/temperature'', ''23.50''), (''device/a1b2/humidity'', ''40.20''),
            (''device/a1b2/pressure'', ''1013.25''), (''device/a1b2/temperature2'', ''24.10'')]" .
  from m p' have b: "msg s1 = ''24.10''" by simp
  from s1 due a b show ?thesis by (intro exI [of _ s1] conjI)
qed

section \<open>Identity, topics and the broker session\<close>

text \<open>
  Claim C5.  Take a pass of \<^verbatim>\<open>loop()\<close> at whose top the client reports that it is
  not connected.  Until the client reports a connection the pass makes only calls into
  the client, prints and delays (\<open>pre\<close>): it reads no sensor and no clock, and
  publishes on no topic but \<open>events\<close>.  With a consistent client this point is reached
  by a call of \<^verbatim>\<open>client.connect\<close> that succeeds; right after it come the startup
  announcement on \<open>events\<close> and the subscription to the command topic, and only then
  does the pass go on to \<^verbatim>\<open>client.loop()\<close>, to the reading of the clock and to the
  report cycle \<open>cyc\<close>.
\<close>

theorem no_sensor_activity_before_reconnect:
  assumes "loop P C inp s = Some s'" and "\<not> connected_top inp"
  shows "(\<exists>pre cb cyc. list_all link_event pre \<and> list_all link_event cb \<and>
            trace s' = trace s @ [ClientConnected False] @ pre @
              [ClientConnected True, ClientLoop] @ cb @ [Millis (millis inp)] @ cyc) \<and>
         (client_consistent inp \<longrightarrow>
            (\<exists>pre cb cyc. list_all link_event pre \<and> list_all link_event cb \<and>
               trace s' = trace s @ [ClientConnected False] @ pre @
                 [ClientConnect (''esp8266-'' @ hex (getChipId P)) True,
                  SerialPrintln ''connected'',
                  ClientPublish ''events'' (''Device esp8266-'' @ hex (getChipId P) @ '' starting up''),
                  ClientSubscribe (command_topic s),
                  ClientConnected True,
                  ClientLoop] @ cb @ [Millis (millis inp)] @ cyc))"
proof (intro conjI impI)
  from loop_trace [OF assms(1)] obtain k where
    kk: "\<not> connected_top inp \<longrightarrow> connected_poll inp k \<and> (\<forall>j<k. \<not> connected_poll inp j)" and
    t: "trace s' = trace s @ link_events P inp (command_topic s) k @ Millis (millis inp) #
               (if next_report_time s \<le> millis inp
                then dht_events P C inp s @ baro_events P C inp s else [])"
    by (elim exE conjE)
  from kk assms(2) have k: "connected_poll inp k" by simp
  let ?A = "attempt_events P inp (command_topic s)"
  let ?cb = "concat (map (\<lambda>(t, p). callback_events t p) (inbound inp))"
  let ?cyc = "if next_report_time s \<le> millis inp
                then dht_events P C inp s @ baro_events P C inp s else []"
  have cb: "list_all link_event ?cb"
    by (rule inbound_events_link)
  show "\<exists>pre cb cyc. list_all link_event pre \<and> list_all link_event cb \<and>
            trace s' = trace s @ [ClientConnected False] @ pre @
              [ClientConnected True, ClientLoop] @ cb @ [Millis (millis inp)] @ cyc"
  proof -
    have "trace s' = trace s @ [ClientConnected False] @ concat (map ?A [0..<k]) @
              [ClientConnected True, ClientLoop] @ ?cb @ [Millis (millis inp)] @ ?cyc"
      unfolding t using assms(2) by (simp add: link_events_def)
    moreover have "list_all link_event (concat (map ?A [0..<k]))"
      by (rule attempts_link)
    ultimately show ?thesis using cb
      by (intro exI [of _ "concat (map ?A [0..<k])"] exI [of _ ?cb] exI [of _ ?cyc] conjI)
  qed
  assume cons: "client_consistent inp"
  from assms(2) cons have p0: "\<not> connected_poll inp 0"
    and ok: "\<forall>i. connected_poll inp (Suc i) \<longrightarrow> connect_result inp i"
    by (simp_all add: client_consistent_def)
  from k p0 obtain k' where k': "k = Suc k'"
    by (cases k) simp_all
  from ok k k' have r: "connect_result inp k'" by simp
  let ?pre = "concat (map ?A [0..<k']) @
              [ClientConnected False, SerialPrint ''Attempting MQTT connection...'']"
  have last: "?A k' = [ClientConnected False, SerialPrint ''Attempting MQTT connection...'',
              ClientConnect (''esp8266-'' @ hex (getChipId P)) True,
              SerialPrintln ''connected'',
              ClientPublish ''events'' (''Device esp8266-'' @ hex (getChipId P) @ '' starting up''),
              ClientSubscribe (command_topic s)]"
    using r by (simp add: attempt_events_def mqtt_client_id_def)
  have l: "link_events P inp (command_topic s) k =
           [ClientConnected False] @ concat (map ?A [0..<k']) @ ?A k' @
           [ClientConnected True, ClientLoop] @ ?cb"
    using assms(2) by (simp add: link_events_def k')
  have "trace s' = trace s @ [ClientConnected False] @ ?pre @
             [ClientConnect (''esp8266-'' @ hex (getChipId P)) True,
              SerialPrintln ''connected'',
              ClientPublish ''events'' (''Device esp8266-'' @ hex (getChipId P) @ '' starting up''),
              ClientSubscribe (command_topic s),
              ClientConnected True,
              ClientLoop] @ ?cb @ [Millis (millis inp)] @ ?cyc"
    unfolding t l last by simp
  moreover have "list_all link_event ?pre"
    by (simp add: attempts_link)
  ultimately show "\<exists>pre cb cyc. list_all link_event pre \<and> list_all link_event cb \<and>
               trace s' = trace s @ [ClientConnected False] @ pre @
                 [ClientConnect (''esp8266-'' @ hex (getChipId P)) True,
                  SerialPrintln ''connected'',
                  ClientPublish ''events'' (''Device esp8266-'' @ hex (getChipId P) @ '' starting up''),
                  ClientSubscribe (command_topic s),
                  ClientConnected True,
                  ClientLoop] @ cb @ [Millis (millis inp)] @ cyc"
    using cb by (intro exI [of _ ?pre] exI [of _ ?cb] exI [of _ ?cyc] conjI)
qed

theorem no_sensor_activity_before_reconnect_witness:
  "\<exists>s1. loop bench_platform (sketch_calibration bench_platform) (bench_outage 7) bench_state = Some s1
     \<and> \<not> connected_top (bench_outage 7)
     \<and> client_consistent (bench_outage 7)
     \<and> (\<exists>pre cb cyc. list_all link_event pre \<and> list_all link_event cb \<and>
           trace s1 = [ClientConnected False] @ pre @
             [ClientConnect ''esp8266-a1b2'' True,
              SerialPrintln ''connected'',
              ClientPublish ''events'' ''Device esp8266-a1b2 starting up'',
              ClientSubscribe ''device/a1b2/command'',
              ClientConnected True,
              ClientLoop] @ cb @ [Millis 7] @ cyc)"
proof -
  let ?C = "sketch_calibration bench_platform"
  have "connected_top (bench_outage 7) \<or> connected_poll (bench_outage 7) 2"
    by (simp add: bench_outage_def)
  from loop_returns [OF this, of bench_platform ?C bench_state]
  obtain s1 where s1: "loop bench_platform ?C (bench_outage 7) bench_state = Some s1"
    by (elim exE)
  have top: "\<not> connected_top (bench_outage 7)" by (simp add: bench_outage_def)
  have cons: "client_consistent (bench_outage 7)"
    by (simp add: client_consistent_def bench_outage_def)
  have h: "hex (getChipId bench_platform) = ''a1b2''"
    by (simp add: bench_platform_def hex_def digit_char_def)
  have m: "millis (bench_outage 7) = 7" "command_topic bench_state = ''device/a1b2/command''"
    "trace bench_state = []"
    by (simp_all add: bench_outage_def bench_inputs_def bench_state_def)
  from no_sensor_activity_before_reconnect [OF s1 top, THEN conjunct2, rule_format, OF cons]
  have "\<exists>pre cb cyc. list_all link_event pre \<and> list_all link_event cb \<and>
           trace s1 = [ClientConnected False] @ pre @
             [ClientConnect ''esp8266-a1b2'' True,
              SerialPrintln ''connected'',
              ClientPublish ''events'' ''Device esp8266-a1b2 starting up'',
              ClientSubscribe ''device/a1b2/command'',
              ClientConnected True,
              ClientLoop] @ cb @ [Millis 7] @ cyc"
    by (simp add: h m)
  with s1 top cons show ?thesis by (intro exI [of _ s1] conjI)
qed

text \<open>
  Claim C6.  \<^verbatim>\<open>setup()\<close> builds the five topic strings from the chip identifier
  alone, rendered by \<^verbatim>\<open>%x\<close>: lowercase hexadecimal digits without padding, so without
  a leading zero.  For the identifier \<open>a1b2\<close> they are \<open>device/a1b2/humidity\<close>,
  \<open>device/a1b2/temperature\<close>, \<open>device/a1b2/pressure\<close>, \<open>device/a1b2/temperature2\<close>
  and \<open>device/a1b2/command\<close>.  No pass of \<^verbatim>\<open>loop()\<close> changes them.
\<close>

theorem topic_set_from_device_id:
  assumes "sketch_setup P w s0 = Some s"
  shows "device_id s = hex (getChipId P) \<and>
         humidity_topic s = ''device/'' @ hex (getChipId P) @ ''/humidity'' \<and>
         temperature_topic s = ''device/'' @ hex (getChipId P) @ ''/temperature'' \<and>
         pressure_topic s = ''device/'' @ hex (getChipId P) @ ''/pressure'' \<and>
         temperature_2_topic s = ''device/'' @ hex (getChipId P) @ ''/temperature2'' \<and>
         command_topic s = ''device/'' @ hex (getChipId P) @ ''/command'' \<and>
         set (hex (getChipId P)) \<subseteq> set ''0123456789abcdef'' \<and>
         (getChipId P \<noteq> 0 \<longrightarrow> hd (hex (getChipId P)) \<noteq> CHR ''0'') \<and>
         (getChipId P = 0xa1b2 \<longrightarrow>
            humidity_topic s = ''device/a1b2/humidity'' \<and>
            temperature_topic s = ''device/a1b2/temperature'' \<and>
            pressure_topic s = ''device/a1b2/pressure'' \<and>
            temperature_2_topic s = ''device/a1b2/temperature2'' \<and>
            command_topic s = ''device/a1b2/command'') \<and>
         (\<forall>C inps s'. run P C inps s = Some s' \<longrightarrow>
            humidity_topic s' = humidity_topic s \<and>
            temperature_topic s' = temperature_topic s \<and>
            pressure_topic s' = pressure_topic s \<and>
            temperature_2_topic s' = temperature_2_topic s \<and>
            command_topic s' = command_topic s \<and>
            device_id s' = device_id s)"
proof -
  note F = sketch_setup_fields [OF assms]
  from F(1) have t: "humidity_topic s = ''device/'' @ hex (getChipId P) @ ''/humidity''"
    "temperature_topic s = ''device/'' @ hex (getChipId P) @ ''/temperature''"
    "pressure_topic s = ''device/'' @ hex (getChipId P) @ ''/pressure''"
    "temperature_2_topic s = ''device/'' @ hex (getChipId P) @ ''/temperature2''"
    "command_topic s = ''device/'' @ hex (getChipId P) @ ''/command''"
    by (simp_all add: topic_set_def)
  have chars: "set (hex (getChipId P)) \<subseteq> set ''0123456789abcdef''"
    unfolding hex_def by (rule radix_digits_hex_chars)
  have lead: "getChipId P \<noteq> 0 \<longrightarrow> hd (hex (getChipId P)) \<noteq> CHR ''0''"
  proof
    assume "getChipId P \<noteq> 0"
    then have "0 < unat (getChipId P)" by (simp add: unat_gt_0)
    then show "hd (hex (getChipId P)) \<noteq> CHR ''0''"
      unfolding hex_def by (rule radix_digits_no_leading_zero)
  qed
  have ex: "hex 0xa1b2 = ''a1b2''"
    by (simp add: hex_def digit_char_def)
  have a1b2: "getChipId P = 0xa1b2 \<longrightarrow>
            humidity_topic s = ''device/a1b2/humidity'' \<and>
            temperature_topic s = ''device/a1b2/temperature'' \<and>
            pressure_topic s = ''device/a1b2/pressure'' \<and>
            temperature_2_topic s = ''device/a1b2/temperature2'' \<and>
            command_topic s = ''device/a1b2/command''"
    using t by (simp add: ex)
  have imm: "\<forall>C inps s'. run P C inps s = Some s' \<longrightarrow>
            humidity_topic s' = humidity_topic s \<and>
            temperature_topic s' = temperature_topic s \<and>
            pressure_topic s' = pressure_topic s \<and>
            temperature_2_topic s' = temperature_2_topic s \<and>
            command_topic s' = command_topic s \<and>
            device_id s' = device_id s"
  proof (intro allI impI)
    fix C inps s'
    assume "run P C inps s = Some s'"
    from run_topics [OF this] show "humidity_topic s' = humidity_topic s \<and>
            temperature_topic s' = temperature_topic s \<and>
            pressure_topic s' = pressure_topic s \<and>
            temperature_2_topic s' = temperature_2_topic s \<and>
            command_topic s' = command_topic s \<and>
            device_id s' = device_id s"
      by (simp add: topic_set_def)
  qed
  from F(2) t chars lead a1b2 imm show ?thesis by (intro conjI)
qed

theorem topic_set_from_device_id_witness:
  "\<exists>s s'. sketch_setup bench_platform bench_wifi initial_state = Some s
     \<and> humidity_topic s = ''device/a1b2/humidity''
     \<and> temperature_topic s = ''device/a1b2/temperature''
     \<and> pressure_topic s = ''device/a1b2/pressure''
     \<and> temperature_2_topic s = ''device/a1b2/temperature2''
     \<and> command_topic s = ''device/a1b2/command''
     \<and> run bench_platform (sketch_calibration bench_platform) [bench_inputs 0, bench_inputs 5000] s = Some s'
     \<and> command_topic s' = ''device/a1b2/command''
     \<and> temperature_2_topic s' = ''device/a1b2/temperature2''"
proof -
  let ?C = "sketch_calibration bench_platform"
  have "wifi_status bench_wifi 2 = WL_CONNECTED"
    by (simp add: bench_wifi_def WL_CONNECTED_def)
  from sketch_setup_returns [OF this, of bench_platform "initial_state :: int state"]
  obtain s where s: "sketch_setup bench_platform bench_wifi (initial_state :: int state) = Some s"
    by (elim exE)
  obtain s1 where s1: "loop bench_platform ?C (bench_inputs 0) s = Some s1"
    by (simp add: bench_loop_returns)
  obtain s2 where s2: "loop bench_platform ?C (bench_inputs 5000) s1 = Some s2"
    by (simp add: bench_loop_returns)
  have r: "run bench_platform ?C [bench_inputs 0, bench_inputs 5000] s = Some s2"
    by (simp add: s1 s2)
  have id: "getChipId bench_platform = 0xa1b2" by (simp add: bench_platform_def)
  note T = topic_set_from_device_id [OF s]
  from T have "getChipId bench_platform = 0xa1b2 \<longrightarrow>
            humidity_topic s = ''device/a1b2/humidity'' \<and>
            temperature_topic s = ''device/a1b2/temperature'' \<and>
            pressure_topic s = ''device/a1b2/pressure'' \<and>
            temperature_2_topic s = ''device/a1b2/temperature2'' \<and>
            command_topic s = ''device/a1b2/command''"
    by (elim conjE)
  with id have a: "humidity_topic s = ''device/a1b2/humidity''"
    "temperature_topic s = ''device/a1b2/temperature''"
    "pressure_topic s = ''device/a1b2/pressure''"
    "temperature_2_topic s = ''device/a1b2/temperature2''"
    "command_topic s = ''device/a1b2/command''"
    by simp_all
  from T have "\<forall>C inps s'. run bench_platform C inps s = Some s' \<longrightarrow>
            humidity_topic s' = humidity_topic s \<and>
            temperature_topic s' = temperature_topic s \<and>
            pressure_topic s' = pressure_topic s \<and>
            temperature_2_topic s' = temperature_2_topic s \<and>
            command_topic s' = command_topic s \<and>
            device_id s' = device_id s"
    by (elim conjE)
  from this [rule_format, OF r] a have b: "command_topic s2 = ''device/a1b2/command''"
    "temperature_2_topic s2 = ''device/a1b2/temperature2''"
    by simp_all
  from s a r b show ?thesis by (intro exI [of _ s] exI [of _ s2] conjI)
qed

text \<open>
  Claim C7.  Every call of \<^verbatim>\<open>client.connect\<close> made by a pass of \<^verbatim>\<open>loop()\<close>
  sits in one of the rounds of \<^verbatim>\<open>reconnect()\<close> displayed below: its client identifier
  is \<open>esp8266-\<close> followed by the chip identifier in lowercase hexadecimal, and whenever
  it succeeds the next call into the client publishes
  \<open>Device esp8266-{id} starting up\<close> to the topic \<open>events\<close>, followed by the
  subscription to the command topic.  \<open>k\<close> is the number of rounds: the first poll at
  which the client reports a connection.
\<close>

theorem client_id_and_announcement:
  assumes "loop P C inp s = Some s'"
  shows "\<exists>k rest. list_all (\<lambda>e. \<not> is_connect e) rest \<and>
           (\<not> connected_top inp \<longrightarrow> connected_poll inp k \<and> (\<forall>j<k. \<not> connected_poll inp j)) \<and>
           trace s' = trace s @ [ClientConnected (connected_top inp)] @
             (if connected_top inp then []
              else concat (map (\<lambda>i.
                     [ClientConnected False,
                      SerialPrint ''Attempting MQTT connection...'',
                      ClientConnect (''esp8266-'' @ hex (getChipId P)) (connect_result inp i)] @
                     (if connect_result inp i
                      then [SerialPrintln ''connected'',
                            ClientPublish ''events''
                              (''Device esp8266-'' @ hex (getChipId P) @ '' starting up''),
                            ClientSubscribe (command_topic s)]
                      else [SerialPrint ''failed, rc='',
                            ClientState (client_state inp i),
                            SerialPrint (print_int (client_state inp i)),
                            SerialPrintln '' try again in 5 seconds'',
                            Delay 5000])) [0..<k]) @
                   [ClientConnected True]) @
             [ClientLoop] @ rest"
proof -
  from loop_trace [OF assms] obtain k where
    k: "\<not> connected_top inp \<longrightarrow> connected_poll inp k \<and> (\<forall>j<k. \<not> connected_poll inp j)" and
    t: "trace s' = trace s @ link_events P inp (command_topic s) k @ Millis (millis inp) #
               (if next_report_time s \<le> millis inp
                then dht_events P C inp s @ baro_events P C inp s else [])"
    by (elim exE conjE)
  let ?rest = "concat (map (\<lambda>(t, p). callback_events t p) (inbound inp)) @ Millis (millis inp) #
               (if next_report_time s \<le> millis inp
                then dht_events P C inp s @ baro_events P C inp s else [])"
  have r: "list_all (\<lambda>e. \<not> is_connect e) ?rest"
    by (simp add: inbound_events_no_connect dht_events_no_connect baro_events_no_connect)
  have a: "attempt_events P inp (command_topic s) =
           (\<lambda>i. [ClientConnected False,
                      SerialPrint ''Attempting MQTT connection...'',
                      ClientConnect (''esp8266-'' @ hex (getChipId P)) (connect_result inp i)] @
                     (if connect_result inp i
                      then [SerialPrintln ''connected'',
                            ClientPublish ''events''
                              (''Device esp8266-'' @ hex (getChipId P) @ '' starting up''),
                            ClientSubscribe (command_topic s)]
                      else [SerialPrint ''failed, rc='',
                            ClientState (client_state inp i),
                            SerialPrint (print_int (client_state inp i)),
                            SerialPrintln '' try again in 5 seconds'',
                            Delay 5000]))"
    by (rule ext) (simp add: attempt_events_def mqtt_client_id_def)
  have "trace s' = trace s @ [ClientConnected (connected_top inp)] @
             (if connected_top inp then []
              else concat (map (attempt_events P inp (command_topic s)) [0..<k]) @
                   [ClientConnected True]) @
             [ClientLoop] @ ?rest"
    unfolding t by (simp add: link_events_def)
  then have "trace s' = trace s @ [ClientConnected (connected_top inp)] @
             (if connected_top inp then []
              else concat (map (\<lambda>i.
                     [ClientConnected False,
                      SerialPrint ''Attempting MQTT connection...'',
                      ClientConnect (''esp8266-'' @ hex (getChipId P)) (connect_result inp i)] @
                     (if connect_result inp i
                      then [SerialPrintln ''connected'',
                            ClientPublish ''events''
                              (''Device esp8266-'' @ hex (getChipId P) @ '' starting up''),
                            ClientSubscribe (command_topic s)]
                      else [SerialPrint ''failed, rc='',
                            ClientState (client_state inp i),
                            SerialPrint (print_int (client_state inp i)),
                            SerialPrintln '' try again in 5 seconds'',
                            Delay 5000])) [0..<k]) @
                   [ClientConnected True]) @
             [ClientLoop] @ ?rest"
    unfolding a .
  with r k show ?thesis
    by (intro exI [of _ k] exI [of _ ?rest] conjI)
qed

theorem client_id_and_announcement_witness:
  "\<exists>s1 rest. loop bench_platform (sketch_calibration bench_platform) (bench_outage 7) bench_state = Some s1
     \<and> trace s1 =
         [ClientConnected False, ClientConnected False,
          SerialPrint ''Attempting MQTT connection...'',
          ClientConnect ''esp8266-a1b2'' False, SerialPrint ''failed, rc='',
          ClientState (- 2), SerialPrint ''-2'',
          SerialPrintln '' try again in 5 seconds'', Delay 5000,
          ClientConnected False,
          SerialPrint ''Attempting MQTT connection...'',
          ClientConnect ''esp8266-a1b2'' True, SerialPrintln ''connected'',
          ClientPublish ''events'' ''Device esp8266-a1b2 starting up'',
          ClientSubscribe ''device/a1b2/command'', ClientConnected True,
          ClientLoop] @ rest"
proof -
  let ?C = "sketch_calibration bench_platform"
  have "connected_top (bench_outage 7) \<or> connected_poll (bench_outage 7) 2"
    by (simp add: bench_outage_def)
  from loop_returns [OF this, of bench_platform ?C bench_state]
  obtain s1 where s1: "loop bench_platform ?C (bench_outage 7) bench_state = Some s1"
    by (elim exE)
  have top: "\<not> connected_top (bench_outage 7)" by (simp add: bench_outage_def)
  from client_id_and_announcement [OF s1] top obtain k rest where
    k: "connected_poll (bench_outage 7) k \<and> (\<forall>j<k. \<not> connected_poll (bench_outage 7) j)" and
    t: "trace s1 = trace bench_state @ [ClientConnected (connected_top (bench_outage 7))] @
             (if connected_top (bench_outage 7) then []
              else concat (map (\<lambda>i.
                     [ClientConnected False,
                      SerialPrint ''Attempting MQTT connection...'',
                      ClientConnect (''esp8266-'' @ hex (getChipId bench_platform)) (connect_result (bench_outage 7) i)] @
                     (if connect_result (bench_outage 7) i
                      then [SerialPrintln ''connected'',
                            ClientPublish ''events''
                              (''Device esp8266-'' @ hex (getChipId bench_platform) @ '' starting up''),
                            ClientSubscribe (command_topic bench_state)]
                      else [SerialPrint ''failed, rc='',
                            ClientState (client_state (bench_outage 7) i),
                            SerialPrint (print_int (client_state (bench_outage 7) i)),
                            SerialPrintln '' try again in 5 seconds'',
                            Delay 5000])) [0..<k]) @
                   [ClientConnected True]) @
             [ClientLoop] @ rest"
    by (elim exE conjE) simp
  have k2: "k = 2" by (rule bench_outage_rounds [OF k])
  have u: "[0..<2] = [0, Suc 0]" by (simp add: numeral_2_eq_2)
  have "trace s1 =
         [ClientConnected False, ClientConnected False,
          SerialPrint ''Attempting MQTT connection...'',
          ClientConnect ''esp8266-a1b2'' False, SerialPrint ''failed, rc='',
          ClientState (- 2), SerialPrint ''-2'',
          SerialPrintln '' try again in 5 seconds'', Delay 5000,
          ClientConnected False,
          SerialPrint ''Attempting MQTT connection...'',
          ClientConnect ''esp8266-a1b2'' True, SerialPrintln ''connected'',
          ClientPublish ''events'' ''Device esp8266-a1b2 starting up'',
          ClientSubscribe ''device/a1b2/command'', ClientConnected True,
          ClientLoop] @ rest"
    unfolding t k2 u
    by (simp add: bench_outage_def bench_state_def bench_platform_def hex_def print_int_def
        digit_char_def)
  with s1 show ?thesis by (intro exI [of _ s1] exI [of _ rest] conjI)
qed

end
